theory Spec2Isabelle
  imports Main
begin

section \<open>Strings\<close>

text \<open>
  Python strings are modelled as \<open>string\<close>: lists of characters, a character being a code
  point below 256. \<open>str.upper\<close> is Unicode-aware (it can change the length of a string and
  leave this range), so the handlers take it as a parameter; \<open>ascii_upper\<close> below is what
  it does on ASCII text. \<open>str.lower\<close> is only ever compared with the ASCII words of
  \<open>ALLOWED_EXTENSIONS\<close> and with \<open>true\<close>, none of which has a letter that a character
  outside ASCII lower-cases to by itself; \<open>str_lower\<close> maps the ASCII letters and leaves
  every other character alone.
\<close>

definition ascii_lowercase :: string where
  "ascii_lowercase = ''abcdefghijklmnopqrstuvwxyz''"

definition ascii_uppercase :: string where
  "ascii_uppercase = ''ABCDEFGHIJKLMNOPQRSTUVWXYZ''"

definition char_upper :: "char \<Rightarrow> char" where
  "char_upper c = (case map_of (zip ascii_lowercase ascii_uppercase) c of
                     Some u \<Rightarrow> u | None \<Rightarrow> c)"

definition char_lower :: "char \<Rightarrow> char" where
  "char_lower c = (case map_of (zip ascii_uppercase ascii_lowercase) c of
                     Some l \<Rightarrow> l | None \<Rightarrow> c)"

definition ascii_upper :: "string \<Rightarrow> string" where
  "ascii_upper s = map char_upper s"

definition str_lower :: "string \<Rightarrow> string" where
  "str_lower s = map char_lower s"

text \<open>\<open>s.endswith(suf)\<close>.\<close>

definition endswith :: "string \<Rightarrow> string \<Rightarrow> bool" where
  "endswith s suf = (length suf \<le> length s \<and> drop (length s - length suf) s = suf)"

text \<open>\<open>s.rsplit('.', 1)[1]\<close> for a string that contains a dot: what follows the last dot.\<close>

definition rsplit_dot_last :: "string \<Rightarrow> string" where
  "rsplit_dot_last s = rev (takeWhile (\<lambda>c. c \<noteq> CHR ''.'') (rev s))"

section \<open>Image helpers\<close>

definition ALLOWED_EXTENSIONS :: "string list" where
  "ALLOWED_EXTENSIONS = [''png'', ''jpg'', ''jpeg'', ''gif'', ''webp'']"

definition allowed_file :: "string \<Rightarrow> bool" where
  "allowed_file filename =
     (CHR ''.'' \<in> set filename \<and>
      str_lower (rsplit_dot_last filename) \<in> set ALLOWED_EXTENSIONS)"

section \<open>Data model\<close>

text \<open>
  A \<open>datetime\<close> value of Python, field by field. Values are compared field by field from
  the year down, which is the chronological order.
\<close>

record datetime =
  year :: nat
  month :: nat
  day :: nat
  hour :: nat
  minute :: nat
  second :: nat
  microsecond :: nat

definition dt_fields :: "datetime \<Rightarrow> nat list" where
  "dt_fields t = [year t, month t, day t, hour t, minute t, second t, microsecond t]"

fun lex_less :: "nat list \<Rightarrow> nat list \<Rightarrow> bool" where
  "lex_less (x # xs) (y # ys) = (x < y \<or> (x = y \<and> lex_less xs ys))"
| "lex_less _ _ = False"

definition dt_less :: "datetime \<Rightarrow> datetime \<Rightarrow> bool" where
  "dt_less a b = lex_less (dt_fields a) (dt_fields b)"

definition dt_le :: "datetime \<Rightarrow> datetime \<Rightarrow> bool" where
  "dt_le a b = (\<not> dt_less b a)"

text \<open>The model class \<open>Sighting\<close>: one row of the table. Nullable columns are options.\<close>

record sighting =
  sighting_id :: nat
  state :: string
  license_plate :: string
  car_make :: string
  car_model :: string
  color :: string
  location :: "string option"
  timestamp :: "datetime option"
  notes_field :: "string option"
  image_filename :: "string option"

text \<open>
  An uploaded file (werkzeug's \<open>FileStorage\<close>): its filename and its bytes. The upload
  directory maps a filename to the bytes stored under it.
\<close>

type_synonym upload = "string \<times> string"

type_synonym folder = "string \<rightharpoonup> string"

section \<open>Bulk image importer\<close>

text \<open>
  The running totals of \<open>bulk_upload\<close> and the upload folder it writes to. The table is
  only read; its list order stands for the order in which the database returns rows, which
  is what \<open>first()\<close> and the scan over \<open>all()\<close> see.
\<close>

record bulk_state =
  success_count :: nat
  error_count :: nat
  errors :: "string list"
  folder_of :: folder

text \<open>
  The matching of one uploaded filename: the exact match first, then the first row with a
  non-null \<open>image_filename\<close> that ends with \<open>_<uploaded>\<close>. The result is
  \<open>target_filename\<close>, or \<open>None\<close> when \<open>sighting\<close> stays \<open>None\<close>.
\<close>

definition match_target :: "sighting list \<Rightarrow> string \<Rightarrow> string option" where
  "match_target tbl uploaded_filename =
     (case find (\<lambda>s. image_filename s = Some uploaded_filename) tbl of
        Some s \<Rightarrow> Some uploaded_filename
      | None \<Rightarrow>
          (case find (\<lambda>s. endswith (the (image_filename s)) (CHR ''_'' # uploaded_filename))
                  (filter (\<lambda>s. image_filename s \<noteq> None) tbl) of
             Some s \<Rightarrow> image_filename s
           | None \<Rightarrow> None))"

text \<open>One iteration of the loop over \<open>files\<close>.\<close>

definition bulk_step :: "sighting list \<Rightarrow> upload \<Rightarrow> bulk_state \<Rightarrow> bulk_state" where
  "bulk_step tbl file st =
     (let filename = fst file in
      if filename = [] then st
      else if \<not> allowed_file filename then
        st\<lparr>errors := errors st @ [filename @ '': Invalid file type''],
           error_count := error_count st + 1\<rparr>
      else
        (case match_target tbl filename of
           None \<Rightarrow>
             st\<lparr>errors := errors st @ [filename @ '': No matching sighting found in database''],
                error_count := error_count st + 1\<rparr>
         | Some target_filename \<Rightarrow>
             st\<lparr>folder_of := (folder_of st)(target_filename \<mapsto> snd file),
                success_count := success_count st + 1\<rparr>))"

fun bulk_loop :: "sighting list \<Rightarrow> upload list \<Rightarrow> bulk_state \<Rightarrow> bulk_state" where
  "bulk_loop tbl [] st = st"
| "bulk_loop tbl (file # files) st = bulk_loop tbl files (bulk_step tbl file st)"

definition bulk_init :: "folder \<Rightarrow> bulk_state" where
  "bulk_init up = \<lparr>success_count = 0, error_count = 0, errors = [], folder_of = up\<rparr>"

section \<open>Parsing and printing of date-times\<close>

text \<open>
  \<open>datetime.strptime\<close> compiles its format into a regular expression, matches it at the
  start of the input with backtracking, rejects input that the match leaves unconsumed, and
  then builds the date-time, which rejects impossible dates. A parser below returns every way
  of matching a prefix, in the order in which the backtracking matcher tries them, each with
  the rest of the input; the first entry of a whole format is the match the library finds.
  \<open>\d\<close> matches the decimal digits of Unicode; below 256 these are the ten ASCII digits.
\<close>

type_synonym 'a parser = "string \<Rightarrow> ('a \<times> string) list"

definition digits :: string where
  "digits = ''0123456789''"

definition nonzero_digits :: string where
  "nonzero_digits = ''123456789''"

definition digit_val :: "char \<Rightarrow> nat" where
  "digit_val c = length (takeWhile (\<lambda>d. d \<noteq> c) digits)"

definition re_one :: "string \<Rightarrow> nat parser" where
  "re_one c1 s =
     (case s of a # r \<Rightarrow> if a \<in> set c1 then [(digit_val a, r)] else [] | [] \<Rightarrow> [])"

definition re_two :: "string \<Rightarrow> string \<Rightarrow> nat parser" where
  "re_two c1 c2 s =
     (case s of
        a # b # r \<Rightarrow>
          if a \<in> set c1 \<and> b \<in> set c2 then [(10 * digit_val a + digit_val b, r)] else []
      | _ \<Rightarrow> [])"

text \<open>\<open>%Y\<close> is \<open>\d\d\d\d\<close>.\<close>

definition dir_Y :: "nat parser" where
  "dir_Y s =
     (case s of
        a # b # c # d # r \<Rightarrow>
          if a \<in> set digits \<and> b \<in> set digits \<and> c \<in> set digits \<and> d \<in> set digits
          then [(1000 * digit_val a + 100 * digit_val b + 10 * digit_val c + digit_val d, r)]
          else []
      | _ \<Rightarrow> [])"

text \<open>\<open>%m\<close> is \<open>1[0-2]|0[1-9]|[1-9]\<close>.\<close>

definition dir_m :: "nat parser" where
  "dir_m s = re_two ''1'' ''012'' s @ re_two ''0'' nonzero_digits s @ re_one nonzero_digits s"

text \<open>\<open>%d\<close> is \<open>3[0-1]|[1-2]\d|0[1-9]|[1-9]| [1-9]\<close>.\<close>

definition dir_d :: "nat parser" where
  "dir_d s =
     re_two ''3'' ''01'' s @ re_two ''12'' digits s @ re_two ''0'' nonzero_digits s @
     re_one nonzero_digits s @
     (case s of a # r \<Rightarrow> if a = CHR '' '' then re_one nonzero_digits r else [] | [] \<Rightarrow> [])"

text \<open>\<open>%H\<close> is \<open>2[0-3]|[0-1]\d|\d\<close>.\<close>

definition dir_H :: "nat parser" where
  "dir_H s = re_two ''2'' ''0123'' s @ re_two ''01'' digits s @ re_one digits s"

text \<open>\<open>%M\<close> is \<open>[0-5]\d|\d\<close>.\<close>

definition dir_M :: "nat parser" where
  "dir_M s = re_two ''012345'' digits s @ re_one digits s"

text \<open>\<open>%S\<close> is \<open>6[0-1]|[0-5]\d|\d\<close>.\<close>

definition dir_S :: "nat parser" where
  "dir_S s = re_two ''6'' ''01'' s @ re_two ''012345'' digits s @ re_one digits s"

text \<open>
  A literal character of the format; the expression is compiled with \<open>re.IGNORECASE\<close>, so
  a letter is given in both cases.
\<close>

definition lit :: "string \<Rightarrow> unit parser" where
  "lit cs s = (case s of a # r \<Rightarrow> if a \<in> set cs then [((), r)] else [] | [] \<Rightarrow> [])"

text \<open>
  White space in the format becomes \<open>\s+\<close>: greedy, so the longest run is tried first.
  \<open>whitespace\<close> lists the characters below 256 that \<open>\s\<close> matches in a \<open>str\<close>.
\<close>

definition whitespace :: string where
  "whitespace = [CHR '' '', CHR 0x09, CHR 0x0A, CHR 0x0B, CHR 0x0C, CHR 0x0D,
                 CHR 0x1C, CHR 0x1D, CHR 0x1E, CHR 0x1F, CHR 0x85, CHR 0xA0]"

definition ws_plus :: "unit parser" where
  "ws_plus s =
     map (\<lambda>k. ((), drop k s)) (rev [1 ..< Suc (length (takeWhile (\<lambda>c. c \<in> set whitespace) s))])"

definition then_p :: "'a parser \<Rightarrow> ('a \<Rightarrow> 'b parser) \<Rightarrow> 'b parser" where
  "then_p p f s = concat (map (\<lambda>(a, r). f a r) (p s))"

definition return_p :: "'a \<Rightarrow> 'a parser" where
  "return_p a s = [(a, s)]"

definition is_leap :: "nat \<Rightarrow> bool" where
  "is_leap y = (y mod 4 = 0 \<and> (y mod 100 \<noteq> 0 \<or> y mod 400 = 0))"

definition days_in_month :: "nat \<Rightarrow> nat \<Rightarrow> nat" where
  "days_in_month y m =
     (if m = 2 then (if is_leap y then 29 else 28)
      else if m = 4 \<or> m = 6 \<or> m = 9 \<or> m = 11 then 30 else 31)"

text \<open>The range checks of the \<open>datetime\<close> constructor.\<close>

definition valid_datetime :: "datetime \<Rightarrow> bool" where
  "valid_datetime t =
     (1 \<le> year t \<and> year t \<le> 9999 \<and> 1 \<le> month t \<and> month t \<le> 12 \<and>
      1 \<le> day t \<and> day t \<le> days_in_month (year t) (month t) \<and>
      hour t < 24 \<and> minute t < 60 \<and> second t < 60 \<and> microsecond t < 1000000)"

datatype exn = ValueError | KeyError string | OverflowError | OSError | SQLAlchemyError

definition mk_datetime :: "nat \<Rightarrow> nat \<Rightarrow> nat \<Rightarrow> nat \<Rightarrow> nat \<Rightarrow> nat \<Rightarrow> datetime" where
  "mk_datetime y m d h mi sec =
     \<lparr>year = y, month = m, day = d, hour = h, minute = mi, second = sec, microsecond = 0\<rparr>"

definition finish :: "(datetime \<times> string) list \<Rightarrow> exn + datetime" where
  "finish ms =
     (case ms of
        [] \<Rightarrow> Inl ValueError
      | (t, r) # _ \<Rightarrow>
          if r \<noteq> [] then Inl ValueError
          else if \<not> valid_datetime t then Inl ValueError
          else Inr t)"

text \<open>\<open>datetime.strptime(s, '%Y-%m-%d')\<close>.\<close>

definition strptime_date :: "string \<Rightarrow> exn + datetime" where
  "strptime_date s =
     finish
       (then_p dir_Y (\<lambda>y. then_p (lit ''-'') (\<lambda>_. then_p dir_m (\<lambda>m.
        then_p (lit ''-'') (\<lambda>_. then_p dir_d (\<lambda>d.
        return_p (mk_datetime y m d 0 0 0)))))) s)"

text \<open>\<open>datetime.strptime(s, '%Y-%m-%dT%H:%M')\<close>.\<close>

definition strptime_minutes :: "string \<Rightarrow> exn + datetime" where
  "strptime_minutes s =
     finish
       (then_p dir_Y (\<lambda>y. then_p (lit ''-'') (\<lambda>_. then_p dir_m (\<lambda>m.
        then_p (lit ''-'') (\<lambda>_. then_p dir_d (\<lambda>d. then_p (lit ''Tt'') (\<lambda>_.
        then_p dir_H (\<lambda>h. then_p (lit '':'') (\<lambda>_. then_p dir_M (\<lambda>mi.
        return_p (mk_datetime y m d h mi 0)))))))))) s)"

text \<open>\<open>datetime.strptime(s, '%Y-%m-%d %H:%M:%S')\<close>.\<close>

definition strptime_seconds :: "string \<Rightarrow> exn + datetime" where
  "strptime_seconds s =
     finish
       (then_p dir_Y (\<lambda>y. then_p (lit ''-'') (\<lambda>_. then_p dir_m (\<lambda>m.
        then_p (lit ''-'') (\<lambda>_. then_p dir_d (\<lambda>d. then_p ws_plus (\<lambda>_.
        then_p dir_H (\<lambda>h. then_p (lit '':'') (\<lambda>_. then_p dir_M (\<lambda>mi.
        then_p (lit '':'') (\<lambda>_. then_p dir_S (\<lambda>sec.
        return_p (mk_datetime y m d h mi sec)))))))))))) s)"

text \<open>\<open>str(n)\<close> for a number that is not negative.\<close>

definition digit_char :: "nat \<Rightarrow> char" where
  "digit_char n = digits ! (n mod 10)"

fun str_nat :: "nat \<Rightarrow> string" where
  "str_nat n = (if n < 10 then [digit_char n] else str_nat (n div 10) @ [digit_char n])"

declare str_nat.simps [simp del]

text \<open>
  \<open>t.strftime('%Y-%m-%d %H:%M:%S')\<close>: the month, the day and the time of day in two
  digits each; the year as the C library prints it, in decimal without padding (four digits
  from the year 1000 on); the microseconds are not printed.
\<close>

definition pad2 :: "nat \<Rightarrow> string" where
  "pad2 n = [digit_char (n div 10), digit_char n]"

definition strftime_seconds :: "datetime \<Rightarrow> string" where
  "strftime_seconds t =
     str_nat (year t) @ ''-'' @ pad2 (month t) @ ''-'' @ pad2 (day t) @ '' '' @
     pad2 (hour t) @ '':'' @ pad2 (minute t) @ '':'' @ pad2 (second t)"

text \<open>
  \<open>d + timedelta(days=1)\<close>; a result after the year 9999 raises \<open>OverflowError\<close>.
\<close>

definition add_one_day :: "datetime \<Rightarrow> exn + datetime" where
  "add_one_day t =
     (if day t < days_in_month (year t) (month t) then Inr (t\<lparr>day := day t + 1\<rparr>)
      else if month t < 12 then Inr (t\<lparr>month := month t + 1, day := 1\<rparr>)
      else if year t < 9999 then Inr (t\<lparr>year := year t + 1, month := 1, day := 1\<rparr>)
      else Inl OverflowError)"

section \<open>The application state\<close>

text \<open>
  What a request handler can read and change: the table (its committed rows, in the order
  the database returns them), the upload folder, the files of that folder whose removal the
  operating system refuses (so that \<open>os.remove\<close> raises), the filenames under which it
  refuses to write (so that \<open>file.save\<close> raises), the rows that the database refuses to
  store (so that the flush or the commit that sends such a row raises), the flashed
  messages, and the file and session operations of the sighting service in the order they
  were issued.
\<close>

datatype flash = Flash string string | FlashExn string exn string

datatype effect =
    FileSave string | OsRemove string
  | SessionAdd | SessionFlush | SessionDelete | SessionCommit | SessionRollback

datatype response = Redirect string | Render string

datatype http_method = GET | POST

record world =
  table :: "sighting list"
  uploads :: folder
  undeletable :: "string list"
  unwritable :: "string list"
  db_refuses :: "sighting \<Rightarrow> bool"
  flashes :: "flash list"
  effects :: "effect list"

text \<open>
  What the handlers of the sighting service take from outside the repository: werkzeug's
  \<open>secure_filename\<close>, Python's \<open>str.upper\<close>, \<open>datetime.strptime\<close> with the format
  \<open>'%Y-%m-%dT%H:%M'\<close>, the clock \<open>datetime.utcnow()\<close>, and the primary key that the
  database assigns to a row at the flush.
\<close>

record env =
  secure_filename :: "string \<Rightarrow> string"
  upper :: "string \<Rightarrow> string"
  parse_time :: "string \<Rightarrow> exn + datetime"
  utcnow :: datetime
  flush_id :: nat

text \<open>Python's truth value of an optional string: \<open>None\<close> and \<open>''\<close> are false.\<close>

definition truthy :: "string option \<Rightarrow> bool" where
  "truthy x = (case x of None \<Rightarrow> False | Some v \<Rightarrow> v \<noteq> [])"

text \<open>\<open>x or ''\<close>.\<close>

definition or_empty :: "string option \<Rightarrow> string" where
  "or_empty x = (case x of None \<Rightarrow> [] | Some v \<Rightarrow> v)"

definition bind_exn :: "exn + 'a \<Rightarrow> ('a \<Rightarrow> exn + 'b) \<Rightarrow> exn + 'b" where
  "bind_exn m f = (case m of Inl e \<Rightarrow> Inl e | Inr a \<Rightarrow> f a)"

text \<open>\<open>request.form[k]\<close>: a missing key raises.\<close>

definition form_required :: "(string \<rightharpoonup> string) \<Rightarrow> string \<Rightarrow> exn + string" where
  "form_required form k = (case form k of None \<Rightarrow> Inl (KeyError k) | Some v \<Rightarrow> Inr v)"

text \<open>\<open>request.args.get(k, default)\<close>.\<close>

definition args_get :: "(string \<rightharpoonup> string) \<Rightarrow> string \<Rightarrow> string \<Rightarrow> string" where
  "args_get args k dflt = (case args k of None \<Rightarrow> dflt | Some v \<Rightarrow> v)"

definition flash_msg :: "flash \<Rightarrow> world \<Rightarrow> world" where
  "flash_msg m w = w\<lparr>flashes := flashes w @ [m]\<rparr>"

definition invalid_file_type :: flash where
  "invalid_file_type =
     Flash ''Invalid file type. Allowed types: png, jpg, jpeg, gif, webp'' ''warning''"

section \<open>Image handling\<close>

text \<open>
  \<open>save_image\<close>. A \<open>FileStorage\<close> is true when its filename is not empty. When
  \<open>file.save\<close> raises, the exception leaves \<open>save_image\<close>; it is returned here with
  the state at that point.
\<close>

definition save_image ::
  "env \<Rightarrow> upload \<Rightarrow> nat \<Rightarrow> world \<Rightarrow> exn \<times> world + string option \<times> world" where
  "save_image env file sid w =
     (if fst file \<noteq> [] \<and> allowed_file (fst file) then
        let original_filename = secure_filename env (fst file);
            filename = ''sighting_'' @ str_nat sid @ ''_'' @ original_filename;
            w1 = w\<lparr>effects := effects w @ [FileSave filename]\<rparr>
        in if filename \<in> set (unwritable w) then Inl (OSError, w1)
           else Inr (Some filename, w1\<lparr>uploads := (uploads w)(filename \<mapsto> snd file)\<rparr>)
      else Inr (None, w))"

text \<open>
  \<open>delete_image\<close>: nothing happens for a false filename or a file that does not exist; a
  removal that raises is caught and the file stays.
\<close>

definition delete_image :: "string option \<Rightarrow> world \<Rightarrow> bool \<times> world" where
  "delete_image filename w =
     (case filename of
        None \<Rightarrow> (False, w)
      | Some fn \<Rightarrow>
          if fn = [] then (False, w)
          else if uploads w fn = None then (False, w)
          else if fn \<in> set (undeletable w) then
            (False, w\<lparr>effects := effects w @ [OsRemove fn]\<rparr>)
          else
            (True, w\<lparr>uploads := (uploads w)(fn := None),
                      effects := effects w @ [OsRemove fn]\<rparr>))"

section \<open>Listing: the date-range filter\<close>

text \<open>
  The date-range part of \<open>index\<close>, on the rows of the table. A comparison of a null
  timestamp is not true in SQL, so such a row passes no filter. The ordering of the result
  that follows in \<open>index\<close> does not change which rows are returned.
\<close>

definition filter_start :: "string \<Rightarrow> sighting list \<times> flash list \<Rightarrow> sighting list \<times> flash list" where
  "filter_start start_date_str qf =
     (if start_date_str \<noteq> [] then
        (case strptime_date start_date_str of
           Inr start_date \<Rightarrow>
             (filter (\<lambda>s. case timestamp s of None \<Rightarrow> False
                                            | Some t \<Rightarrow> dt_le start_date t) (fst qf),
              snd qf)
         | Inl e \<Rightarrow>
             (fst qf,
              snd qf @ [Flash ''Invalid start date format. Please use YYYY-MM-DD.'' ''error'']))
      else qf)"

definition filter_end ::
  "string \<Rightarrow> sighting list \<times> flash list \<Rightarrow> exn + sighting list \<times> flash list" where
  "filter_end end_date_str qf =
     (if end_date_str \<noteq> [] then
        (case bind_exn (strptime_date end_date_str) add_one_day of
           Inr end_date \<Rightarrow>
             Inr (filter (\<lambda>s. case timestamp s of None \<Rightarrow> False
                                                 | Some t \<Rightarrow> dt_less t end_date) (fst qf),
                  snd qf)
         | Inl ValueError \<Rightarrow>
             Inr (fst qf,
                  snd qf @ [Flash ''Invalid end date format. Please use YYYY-MM-DD.'' ''error''])
         | Inl e \<Rightarrow> Inl e)
      else Inr qf)"

definition index_query ::
  "(string \<rightharpoonup> string) \<Rightarrow> sighting list \<Rightarrow> exn + sighting list \<times> flash list" where
  "index_query args tbl =
     (let start_date_str = args_get args ''start_date'' [];
          end_date_str = args_get args ''end_date'' []
      in filter_end end_date_str (filter_start start_date_str (tbl, [])))"

section \<open>Sighting service\<close>

text \<open>
  The timestamp of a form: \<open>datetime.strptime(s, '%Y-%m-%dT%H:%M') if s else dflt\<close>, where
  \<open>s\<close> is \<open>request.form.get('sighting_time')\<close>.
\<close>

definition form_timestamp ::
  "env \<Rightarrow> (string \<rightharpoonup> string) \<Rightarrow> 'a \<Rightarrow> (datetime \<Rightarrow> 'a) \<Rightarrow> exn + 'a" where
  "form_timestamp env form dflt conv =
     (case form ''sighting_time'' of
        None \<Rightarrow> Inr dflt
      | Some sighting_time_str \<Rightarrow>
          if sighting_time_str = [] then Inr dflt
          else bind_exn (parse_time env sighting_time_str) (\<lambda>t. Inr (conv t)))"

text \<open>
  The first statements of the \<open>try\<close> block of \<open>add_sighting\<close>: the timestamp and the
  \<open>Sighting\<close> built from the form. The key is the one that the flush will assign.
\<close>

definition new_sighting :: "env \<Rightarrow> (string \<rightharpoonup> string) \<Rightarrow> exn + sighting" where
  "new_sighting env form =
     bind_exn (form_timestamp env form (utcnow env) (\<lambda>t. t)) (\<lambda>ts.
     bind_exn (form_required form ''state'') (\<lambda>st.
     bind_exn (form_required form ''license_plate'') (\<lambda>lp.
     bind_exn (form_required form ''car_make'') (\<lambda>mk.
     bind_exn (form_required form ''car_model'') (\<lambda>md.
     bind_exn (form_required form ''color'') (\<lambda>cl.
       Inr \<lparr>sighting_id = flush_id env, state = upper env st, license_plate = upper env lp,
            car_make = mk, car_model = md, color = cl, location = form ''location'',
            timestamp = Some ts, notes_field = form ''notes'', image_filename = None\<rparr>))))))"

text \<open>
  The block "Handle image upload" of \<open>add_sighting\<close>, on the new row and the state after
  the flush. \<open>image_part\<close> is \<open>request.files['image']\<close>, absent when the request has no
  such part.
\<close>

definition add_upload ::
  "env \<Rightarrow> upload option \<Rightarrow> sighting \<times> world \<Rightarrow> exn \<times> world + sighting \<times> world" where
  "add_upload env image_part sw =
     (case image_part of
        None \<Rightarrow> Inr sw
      | Some file \<Rightarrow>
          if fst file \<noteq> [] then
            if allowed_file (fst file) then
              (case save_image env file (sighting_id (fst sw)) (snd sw) of
                 Inl ew \<Rightarrow> Inl ew
               | Inr (Some filename, w2) \<Rightarrow> Inr ((fst sw)\<lparr>image_filename := Some filename\<rparr>, w2)
               | Inr (None, w2) \<Rightarrow> Inr (fst sw, w2))
            else Inr (fst sw, flash_msg invalid_file_type (snd sw))
          else Inr sw)"

text \<open>
  The body of the \<open>try\<close> block of \<open>add_sighting\<close>: either an exception with the state at
  the point where it is raised, or the state after the commit. The table changes at the
  commit only.
\<close>

definition add_sighting_try ::
  "env \<Rightarrow> (string \<rightharpoonup> string) \<Rightarrow> upload option \<Rightarrow> world \<Rightarrow> exn \<times> world + world" where
  "add_sighting_try env form image_part w =
     (case new_sighting env form of
        Inl e \<Rightarrow> Inl (e, w)
      | Inr sighting \<Rightarrow>
          let w1 = w\<lparr>effects := effects w @ [SessionAdd, SessionFlush]\<rparr> in
          if db_refuses w sighting then Inl (SQLAlchemyError, w1)
          else
            (case add_upload env image_part (sighting, w1) of
               Inl ew \<Rightarrow> Inl ew
             | Inr sw \<Rightarrow>
                 let w3 = (snd sw)\<lparr>effects := effects (snd sw) @ [SessionCommit]\<rparr> in
                 if db_refuses w (fst sw) then Inl (SQLAlchemyError, w3)
                 else Inr (flash_msg (Flash ''Sighting added successfully!'' ''success'')
                             (w3\<lparr>table := table w3 @ [fst sw]\<rparr>))))"

text \<open>
  \<open>add_sighting\<close>. The handler of the \<open>try\<close> block rolls back, which leaves the table as
  it was, and flashes the exception; what was done to the upload folder stays done.
\<close>

definition add_sighting ::
  "env \<Rightarrow> http_method \<Rightarrow> (string \<rightharpoonup> string) \<Rightarrow> upload option \<Rightarrow> world
     \<Rightarrow> response \<times> world" where
  "add_sighting env method form image_part w =
     (case method of
        GET \<Rightarrow> (Render ''add_sighting.html'', w)
      | POST \<Rightarrow>
          (case add_sighting_try env form image_part w of
             Inr w' \<Rightarrow> (Redirect ''index'', w')
           | Inl (e, w') \<Rightarrow>
               (Render ''add_sighting.html'',
                flash_msg (FlashExn ''Error adding sighting: '' e ''error'')
                  (w'\<lparr>effects := effects w' @ [SessionRollback]\<rparr>))))"

text \<open>\<open>db.session.get(Sighting, sighting_id)\<close>.\<close>

definition get_sighting :: "sighting list \<Rightarrow> nat \<Rightarrow> sighting option" where
  "get_sighting tbl i = find (\<lambda>s. sighting_id s = i) tbl"

text \<open>
  The first statements of the \<open>try\<close> block of \<open>edit_sighting\<close>: the timestamp and the
  assignments to the fields of the row.
\<close>

definition edited_sighting ::
  "env \<Rightarrow> (string \<rightharpoonup> string) \<Rightarrow> sighting \<Rightarrow> exn + sighting" where
  "edited_sighting env form sighting =
     bind_exn (form_timestamp env form (timestamp sighting) Some) (\<lambda>ts.
     bind_exn (form_required form ''state'') (\<lambda>st.
     bind_exn (form_required form ''license_plate'') (\<lambda>lp.
     bind_exn (form_required form ''car_make'') (\<lambda>mk.
     bind_exn (form_required form ''car_model'') (\<lambda>md.
     bind_exn (form_required form ''color'') (\<lambda>cl.
       Inr (sighting\<lparr>state := upper env st, license_plate := upper env lp,
                      car_make := mk, car_model := md, color := cl,
                      location := form ''location'', timestamp := ts,
                      notes_field := form ''notes''\<rparr>)))))))"

text \<open>The block "Handle image removal" of \<open>edit_sighting\<close>.\<close>

definition edit_remove_image ::
  "(string \<rightharpoonup> string) \<Rightarrow> sighting \<times> world \<Rightarrow> sighting \<times> world" where
  "edit_remove_image form sw =
     (if form ''remove_image'' = Some ''true'' then
        if truthy (image_filename (fst sw)) then
          ((fst sw)\<lparr>image_filename := None\<rparr>,
           snd (delete_image (image_filename (fst sw)) (snd sw)))
        else sw
      else sw)"

text \<open>The block "Handle new image upload" of \<open>edit_sighting\<close>.\<close>

definition edit_upload ::
  "env \<Rightarrow> upload option \<Rightarrow> sighting \<times> world \<Rightarrow> exn \<times> world + sighting \<times> world" where
  "edit_upload env image_part sw =
     (case image_part of
        None \<Rightarrow> Inr sw
      | Some file \<Rightarrow>
          if fst file \<noteq> [] then
            if allowed_file (fst file) then
              (let w2 = (if truthy (image_filename (fst sw))
                         then snd (delete_image (image_filename (fst sw)) (snd sw))
                         else snd sw)
               in case save_image env file (sighting_id (fst sw)) w2 of
                    Inl ew \<Rightarrow> Inl ew
                  | Inr (Some filename, w3) \<Rightarrow>
                      Inr ((fst sw)\<lparr>image_filename := Some filename\<rparr>, w3)
                  | Inr (None, w3) \<Rightarrow> Inr (fst sw, w3))
            else Inr (fst sw, flash_msg invalid_file_type (snd sw))
          else Inr sw)"

text \<open>
  The body of the \<open>try\<close> block of \<open>edit_sighting\<close> for the row \<open>sighting\<close>: either an
  exception with the state at the point where it is raised, or the state after the commit,
  which writes the changed row back under its primary key.
\<close>

definition edit_sighting_try ::
  "env \<Rightarrow> (string \<rightharpoonup> string) \<Rightarrow> upload option \<Rightarrow> sighting \<Rightarrow> world
     \<Rightarrow> exn \<times> world + world" where
  "edit_sighting_try env form image_part sighting w =
     (case edited_sighting env form sighting of
        Inl e \<Rightarrow> Inl (e, w)
      | Inr s1 \<Rightarrow>
          (case edit_upload env image_part (edit_remove_image form (s1, w)) of
             Inl ew \<Rightarrow> Inl ew
           | Inr sw \<Rightarrow>
               let w3 = (snd sw)\<lparr>effects := effects (snd sw) @ [SessionCommit]\<rparr> in
               if db_refuses w (fst sw) then Inl (SQLAlchemyError, w3)
               else Inr (flash_msg (Flash ''Sighting updated successfully!'' ''success'')
                           (w3\<lparr>table := map (\<lambda>r. if sighting_id r = sighting_id sighting
                                                  then fst sw else r) (table w3)\<rparr>))))"

definition edit_sighting ::
  "env \<Rightarrow> http_method \<Rightarrow> nat \<Rightarrow> (string \<rightharpoonup> string) \<Rightarrow> upload option \<Rightarrow> world
     \<Rightarrow> response \<times> world" where
  "edit_sighting env method sid form image_part w =
     (case get_sighting (table w) sid of
        None \<Rightarrow> (Redirect ''index'', flash_msg (Flash ''Sighting not found.'' ''error'') w)
      | Some sighting \<Rightarrow>
          (case method of
             GET \<Rightarrow> (Render ''edit_sighting.html'', w)
           | POST \<Rightarrow>
               (case edit_sighting_try env form image_part sighting w of
                  Inr w' \<Rightarrow> (Redirect ''index'', w')
                | Inl (e, w') \<Rightarrow>
                    (Render ''edit_sighting.html'',
                     flash_msg (FlashExn ''Error updating sighting: '' e ''error'')
                       (w'\<lparr>effects := effects w' @ [SessionRollback]\<rparr>)))))"

text \<open>\<open>delete_sighting\<close>: the image first, then the row.\<close>

definition delete_sighting :: "nat \<Rightarrow> world \<Rightarrow> response \<times> world" where
  "delete_sighting sid w =
     (case get_sighting (table w) sid of
        Some sighting \<Rightarrow>
          (let w1 = (if truthy (image_filename sighting)
                     then snd (delete_image (image_filename sighting) w) else w)
           in (Redirect ''index'',
               flash_msg (Flash ''Sighting deleted successfully.'' ''success'')
                 (w1\<lparr>table := filter (\<lambda>r. sighting_id r \<noteq> sid) (table w1),
                     effects := effects w1 @ [SessionDelete, SessionCommit]\<rparr>)))
      | None \<Rightarrow> (Redirect ''index'', flash_msg (Flash ''Sighting not found.'' ''error'') w))"

section \<open>Bulk image importer: the request handler\<close>

text \<open>
  \<open>images\<close> is \<open>request.files.getlist('images')\<close>, absent when the request has no such
  part.
\<close>

definition bulk_upload :: "http_method \<Rightarrow> upload list option \<Rightarrow> world \<Rightarrow> response \<times> world" where
  "bulk_upload method images w =
     (case method of
        GET \<Rightarrow> (Render ''bulk_upload.html'', w)
      | POST \<Rightarrow>
          (case images of
             None \<Rightarrow> (Redirect ''bulk_upload'', flash_msg (Flash ''No files selected'' ''error'') w)
           | Some files \<Rightarrow>
               if files = [] \<or> list_all (\<lambda>f. fst f = []) files then
                 (Redirect ''bulk_upload'', flash_msg (Flash ''No files selected'' ''error'') w)
               else
                 (let st = bulk_loop (table w) files (bulk_init (uploads w));
                      w1 = w\<lparr>uploads := folder_of st\<rparr>;
                      w2 = (if success_count st > 0 then
                              flash_msg (Flash (''Successfully uploaded '' @
                                                str_nat (success_count st) @ '' image(s)'')
                                               ''success'') w1
                            else w1);
                      w3 = (if error_count st > 0 then
                              fold (\<lambda>error. flash_msg (Flash error ''error''))
                                (take 10 (errors st))
                                (flash_msg (Flash (str_nat (error_count st) @
                                                   '' file(s) failed to upload'') ''warning'') w2)
                            else w2)
                  in (Redirect ''index'', w3))))"

section \<open>Export engine\<close>

text \<open>
  Every export reads \<open>sightings\<close>, the result of the query over the whole table ordered by
  timestamp, newest first.
\<close>

definition include_notes_of :: "(string \<rightharpoonup> string) \<Rightarrow> bool" where
  "include_notes_of args = (str_lower (args_get args ''include_notes'' ''true'') = ''true'')"

definition fieldnames_of :: "bool \<Rightarrow> string list" where
  "fieldnames_of include_notes =
     (if include_notes then
        [''state'', ''license_plate'', ''car_make'', ''car_model'', ''color'', ''location'',
         ''timestamp'', ''notes'', ''image_filename'']
      else
        [''state'', ''license_plate'', ''car_make'', ''car_model'', ''color'', ''location'',
         ''timestamp'', ''image_filename''])"

definition timestamp_text :: "sighting \<Rightarrow> string" where
  "timestamp_text s = (case timestamp s of Some t \<Rightarrow> strftime_seconds t | None \<Rightarrow> [])"

text \<open>The dictionary \<open>row\<close>, in the order its keys are set.\<close>

definition csv_row :: "bool \<Rightarrow> sighting \<Rightarrow> (string \<times> string) list" where
  "csv_row include_notes s =
     [(''state'', state s), (''license_plate'', license_plate s), (''car_make'', car_make s),
      (''car_model'', car_model s), (''color'', color s), (''location'', or_empty (location s)),
      (''timestamp'', timestamp_text s), (''image_filename'', or_empty (image_filename s))] @
     (if include_notes then [(''notes'', or_empty (notes_field s))] else [])"

text \<open>\<open>DictWriter.writerow\<close>: the values in the order of the field names.\<close>

definition writerow :: "string list \<Rightarrow> (string \<times> string) list \<Rightarrow> string list" where
  "writerow fieldnames row =
     map (\<lambda>k. case map_of row k of None \<Rightarrow> [] | Some v \<Rightarrow> v) fieldnames"

text \<open>The CSV as its rows of fields: the header, then one row for each sighting.\<close>

definition csv_rows :: "bool \<Rightarrow> sighting list \<Rightarrow> string list list" where
  "csv_rows include_notes sightings =
     fieldnames_of include_notes #
     map (\<lambda>s. writerow (fieldnames_of include_notes) (csv_row include_notes s)) sightings"

definition export_csv :: "(string \<rightharpoonup> string) \<Rightarrow> sighting list \<Rightarrow> string list list" where
  "export_csv args sightings = csv_rows (include_notes_of args) sightings"

text \<open>
  \<open>export_zip\<close>: the staging directory \<open>images\<close> receives a copy of every image that
  exists in the upload folder, under the stored filename; the archive holds the CSV and one
  member \<open>images/<filename>\<close> for each file of the staging directory.
\<close>

definition copy_image :: "folder \<Rightarrow> sighting \<Rightarrow> folder \<Rightarrow> folder" where
  "copy_image up s images_dir =
     (case image_filename s of
        None \<Rightarrow> images_dir
      | Some fn \<Rightarrow>
          if fn = [] then images_dir
          else (case up fn of
                  None \<Rightarrow> images_dir
                | Some bytes \<Rightarrow> images_dir(fn \<mapsto> bytes)))"

record archive =
  csv_member :: "string list list"
  image_members :: folder

definition export_zip :: "(string \<rightharpoonup> string) \<Rightarrow> folder \<Rightarrow> sighting list \<Rightarrow> archive" where
  "export_zip args up sightings =
     \<lparr>csv_member = csv_rows (include_notes_of args) sightings,
      image_members = fold (copy_image up) sightings Map.empty\<rparr>"

text \<open>\<open>export_python\<close>: the dictionary \<open>data_dict\<close> of a sighting and the text built from it.\<close>

definition data_dict :: "bool \<Rightarrow> sighting \<Rightarrow> (string \<times> string) list" where
  "data_dict include_notes s =
     [(''state'', state s), (''plate'', license_plate s), (''make'', car_make s),
      (''model'', car_model s), (''color'', color s), (''location'', or_empty (location s)),
      (''timestamp'', timestamp_text s), (''image_filename'', or_empty (image_filename s))] @
     (if include_notes then [(''notes'', or_empty (notes_field s))] else [])"

definition plates_data_of :: "(string \<rightharpoonup> string) \<Rightarrow> sighting list \<Rightarrow> (string \<times> string) list list" where
  "plates_data_of args sightings = map (data_dict (include_notes_of args)) sightings"

fun join :: "string \<Rightarrow> string list \<Rightarrow> string" where
  "join sep [] = []"
| "join sep [x] = x"
| "join sep (x # y # xs) = x @ sep @ join sep (y # xs)"

definition format_item :: "string \<times> string \<Rightarrow> string" where
  "format_item kv = [CHR 0x22] @ fst kv @ [CHR 0x22] @ '': '' @ [CHR 0x22] @ snd kv @ [CHR 0x22]"

definition export_python :: "(string \<rightharpoonup> string) \<Rightarrow> sighting list \<Rightarrow> string" where
  "export_python args sightings =
     join [CHR 0x0A]
       ([''# Generated export from License Plate Tracker'',
         ''# Copy the plates_data list into your seed_data.py file'',
         [],
         ''plates_data = [''] @
        map (\<lambda>d. ''    {'' @ join '', '' (map format_item d) @ ''},'')
          (plates_data_of args sightings) @
        ['']''])"

section \<open>Demo-seed loader\<close>

text \<open>
  \<open>seed_database\<close> over a list \<open>plates_data\<close> of dictionaries: the table is emptied, one
  row is added for each dictionary, and the commit follows the loop. An exception leaves the
  loader before the commit. The rows get consecutive primary keys from \<open>first_id\<close> on.
\<close>

definition seed_row :: "(string \<rightharpoonup> string) \<Rightarrow> nat \<Rightarrow> exn + sighting" where
  "seed_row data n =
     bind_exn (form_required data ''state'') (\<lambda>st.
     bind_exn (form_required data ''plate'') (\<lambda>lp.
     bind_exn (form_required data ''make'') (\<lambda>mk.
     bind_exn (form_required data ''model'') (\<lambda>md.
     bind_exn (form_required data ''color'') (\<lambda>cl.
     bind_exn (form_required data ''timestamp'') (\<lambda>tstr.
     bind_exn (strptime_seconds tstr) (\<lambda>ts.
       Inr \<lparr>sighting_id = n, state = st, license_plate = lp, car_make = mk, car_model = md,
            color = cl, location = data ''location'', timestamp = Some ts,
            notes_field = data ''notes'', image_filename = None\<rparr>)))))))"

fun seed_loop :: "(string \<rightharpoonup> string) list \<Rightarrow> nat \<Rightarrow> exn + sighting list" where
  "seed_loop [] n = Inr []"
| "seed_loop (data # rest) n =
     bind_exn (seed_row data n) (\<lambda>s.
     bind_exn (seed_loop rest (Suc n)) (\<lambda>ss. Inr (s # ss)))"

definition seed_database :: "nat \<Rightarrow> (string \<rightharpoonup> string) list \<Rightarrow> world \<Rightarrow> exn + world" where
  "seed_database first_id plates_data w =
     bind_exn (seed_loop plates_data first_id) (\<lambda>ss. Inr (w\<lparr>table := ss\<rparr>))"

section \<open>The notes flag as the specification words it\<close>

text \<open>
  The string \<open>true\<close> in any mix of upper and lower case, and the rule "absent, or equal to
  \<open>true\<close> without regard to case".
\<close>

definition caseless_true :: "string \<Rightarrow> bool" where
  "caseless_true v =
     (case v of
        [a, b, c, d] \<Rightarrow>
          a \<in> set ''tT'' \<and> b \<in> set ''rR'' \<and> c \<in> set ''uU'' \<and> d \<in> set ''eE''
      | _ \<Rightarrow> False)"

definition notes_requested :: "(string \<rightharpoonup> string) \<Rightarrow> bool" where
  "notes_requested args =
     (case args ''include_notes'' of None \<Rightarrow> True | Some v \<Rightarrow> caseless_true v)"

section \<open>Sample data\<close>

text \<open>Concrete rows, forms and states on which the theorems below are evaluated.\<close>

definition sample_sighting :: "nat \<Rightarrow> datetime option \<Rightarrow> string option \<Rightarrow> sighting" where
  "sample_sighting i ts img =
     \<lparr>sighting_id = i, state = ''CA'', license_plate = ''ABC1234'', car_make = ''Honda'',
      car_model = ''Civic'', color = ''Blue'', location = Some ''Downtown LA'', timestamp = ts,
      notes_field = Some ''Seen near coffee shop'', image_filename = img\<rparr>"

definition sample_form :: "string \<rightharpoonup> string" where
  "sample_form =
     [''state'' \<mapsto> ''ny'', ''license_plate'' \<mapsto> ''xyz9876'', ''car_make'' \<mapsto> ''Toyota'',
      ''car_model'' \<mapsto> ''Camry'', ''color'' \<mapsto> ''Silver'']"

definition sample_world :: "sighting list \<Rightarrow> folder \<Rightarrow> string list \<Rightarrow> world" where
  "sample_world tbl up locked =
     \<lparr>table = tbl, uploads = up, undeletable = locked, unwritable = [],
      db_refuses = (\<lambda>r. False), flashes = [], effects = []\<rparr>"

definition sample_time :: datetime where
  "sample_time =
     \<lparr>year = 2025, month = 10, day = 10, hour = 9, minute = 15, second = 0,
      microsecond = 123456\<rparr>"

text \<open>
  An environment for ASCII input: on the filenames used below \<open>secure_filename\<close> returns
  its argument, and on ASCII text \<open>str.upper\<close> is \<open>ascii_upper\<close> and the parser is
  \<open>strptime_minutes\<close>.
\<close>

definition sample_env :: env where
  "sample_env =
     \<lparr>secure_filename = (\<lambda>name. name), upper = ascii_upper, parse_time = strptime_minutes,
      utcnow = sample_time, flush_id = 6\<rparr>"

section \<open>The date range as the specification words it\<close>

text \<open>
  The calendar day of a date-time is its year, month and day. \<open>day_le a b\<close>: the day of
  \<open>a\<close> is the day of \<open>b\<close> or an earlier one. A row is in the range of two days when its
  timestamp is not null and its day is neither before the first nor after the second.
  \<open>midnight\<close>: the time of day is 00:00:00.
\<close>

definition date_fields :: "datetime \<Rightarrow> nat list" where
  "date_fields t = [year t, month t, day t]"

definition day_le :: "datetime \<Rightarrow> datetime \<Rightarrow> bool" where
  "day_le a b = (\<not> lex_less (date_fields b) (date_fields a))"

definition in_day_range :: "datetime \<Rightarrow> datetime \<Rightarrow> sighting \<Rightarrow> bool" where
  "in_day_range d1 d2 s =
     (case timestamp s of None \<Rightarrow> False | Some t \<Rightarrow> day_le d1 t \<and> day_le t d2)"

definition midnight :: "datetime \<Rightarrow> bool" where
  "midnight d = (hour d = 0 \<and> minute d = 0 \<and> second d = 0 \<and> microsecond d = 0)"

section \<open>Counting effects\<close>

text \<open>The file writes, the file removals and the commits in a sequence of effects.\<close>

definition file_writes :: "effect list \<Rightarrow> nat" where
  "file_writes es = length (filter (\<lambda>e. case e of FileSave _ \<Rightarrow> True | _ \<Rightarrow> False) es)"

definition file_deletes :: "effect list \<Rightarrow> nat" where
  "file_deletes es = length (filter (\<lambda>e. case e of OsRemove _ \<Rightarrow> True | _ \<Rightarrow> False) es)"

definition commits :: "effect list \<Rightarrow> nat" where
  "commits es = length (filter (\<lambda>e. e = SessionCommit) es)"

section \<open>The exports as the specification words them\<close>

text \<open>
  What an export request is expected to return for a given answer to "are the notes
  included": the CSV as its rows of fields, with the column \<open>notes\<close> between
  \<open>timestamp\<close> and \<open>image_filename\<close> when they are, and the text of the code-literal
  export, line by line, with the item \<open>"notes": "..."\<close> last in every dictionary when
  they are. These are written out field by field, without the dictionaries, the writer and
  the joins of the source.
\<close>

definition quoted :: "string \<Rightarrow> string" where
  "quoted x = [CHR 0x22] @ x @ [CHR 0x22]"

definition expected_header :: "bool \<Rightarrow> string list" where
  "expected_header with_notes =
     [''state'', ''license_plate'', ''car_make'', ''car_model'', ''color'', ''location'',
      ''timestamp''] @
     (if with_notes then [''notes''] else []) @ [''image_filename'']"

definition expected_row :: "bool \<Rightarrow> sighting \<Rightarrow> string list" where
  "expected_row with_notes s =
     [state s, license_plate s, car_make s, car_model s, color s, or_empty (location s),
      timestamp_text s] @
     (if with_notes then [or_empty (notes_field s)] else []) @ [or_empty (image_filename s)]"

definition expected_csv :: "bool \<Rightarrow> sighting list \<Rightarrow> string list list" where
  "expected_csv with_notes sightings =
     expected_header with_notes # map (expected_row with_notes) sightings"

definition expected_line :: "bool \<Rightarrow> sighting \<Rightarrow> string" where
  "expected_line with_notes s =
     ''    {'' @
     quoted ''state'' @ '': '' @ quoted (state s) @ '', '' @
     quoted ''plate'' @ '': '' @ quoted (license_plate s) @ '', '' @
     quoted ''make'' @ '': '' @ quoted (car_make s) @ '', '' @
     quoted ''model'' @ '': '' @ quoted (car_model s) @ '', '' @
     quoted ''color'' @ '': '' @ quoted (color s) @ '', '' @
     quoted ''location'' @ '': '' @ quoted (or_empty (location s)) @ '', '' @
     quoted ''timestamp'' @ '': '' @ quoted (timestamp_text s) @ '', '' @
     quoted ''image_filename'' @ '': '' @ quoted (or_empty (image_filename s)) @
     (if with_notes then '', '' @ quoted ''notes'' @ '': '' @ quoted (or_empty (notes_field s))
      else []) @
     ''},''"

fun lines_text :: "string list \<Rightarrow> string" where
  "lines_text [] = []"
| "lines_text [l] = l"
| "lines_text (l # ls) = l @ [CHR 0x0A] @ lines_text ls"

definition expected_python :: "bool \<Rightarrow> sighting list \<Rightarrow> string" where
  "expected_python with_notes sightings =
     lines_text
       ([''# Generated export from License Plate Tracker'',
         ''# Copy the plates_data list into your seed_data.py file'',
         [],
         ''plates_data = [''] @
        map (expected_line with_notes) sightings @ ['']''])"

section \<open>Upper case as the specification words it\<close>

text \<open>
  \<open>is_ascii\<close>: every character of the string is below 128. \<open>upper_cased s u\<close>: \<open>u\<close>
  is \<open>s\<close> with every letter \<open>a\<close> to \<open>z\<close> replaced by the letter at the same place of
  the upper-case alphabet and every other character kept; the length is that of \<open>s\<close>.
\<close>

definition is_ascii :: "string \<Rightarrow> bool" where
  "is_ascii s = (\<forall>c \<in> set s. (of_char c :: nat) < 128)"

definition upper_cased :: "string \<Rightarrow> string \<Rightarrow> bool" where
  "upper_cased s u =
     (length u = length s \<and>
      (\<forall>i < length s.
         (\<forall>k < 26. s ! i = ascii_lowercase ! k \<longrightarrow> u ! i = ascii_uppercase ! k) \<and>
         (s ! i \<notin> set ascii_lowercase \<longrightarrow> u ! i = s ! i)))"

section \<open>Frames of the blocks of a handler\<close>

text \<open>
  \<open>step_ok wr rm w w'\<close>: from \<open>w\<close> to \<open>w'\<close> the table and what the environment refuses
  are unchanged, and the effects issued in between hold at most \<open>wr\<close> file writes, at most
  \<open>rm\<close> file removals and no commit. \<open>bounded rm w w'\<close>: from \<open>w\<close> to \<open>w'\<close> at most
  one file write, at most \<open>rm\<close> file removals and at most one commit were issued.
\<close>

definition step_ok :: "nat \<Rightarrow> nat \<Rightarrow> world \<Rightarrow> world \<Rightarrow> bool" where
  "step_ok wr rm w w' =
     (table w' = table w \<and> db_refuses w' = db_refuses w \<and> unwritable w' = unwritable w \<and>
      undeletable w' = undeletable w \<and>
      (\<exists>es. effects w' = effects w @ es \<and> file_writes es \<le> wr \<and> file_deletes es \<le> rm \<and>
            commits es = 0))"

definition bounded :: "nat \<Rightarrow> world \<Rightarrow> world \<Rightarrow> bool" where
  "bounded rm w w' =
     (file_writes (effects w') \<le> Suc (file_writes (effects w)) \<and>
      file_deletes (effects w') \<le> file_deletes (effects w) + rm \<and>
      file_deletes (effects w) \<le> file_deletes (effects w') \<and>
      commits (effects w') \<le> Suc (commits (effects w)))"

section \<open>Properties of the bulk importer\<close>

lemma allowed_file_nonempty: "allowed_file fn \<Longrightarrow> fn \<noteq> []"
  by (auto simp: allowed_file_def)

lemma find_first_split:
  "\<forall>a \<in> set pre. \<not> Q a \<Longrightarrow> Q s \<Longrightarrow> find Q (pre @ s # post) = Some s"
  by (induction pre) auto

lemma match_target_exact:
  "\<exists>s \<in> set tbl. image_filename s = Some u \<Longrightarrow> match_target tbl u = Some u"
  by (auto simp: match_target_def find_None_iff split: option.splits)

lemma match_target_suffix:
  assumes "\<forall>r \<in> set (pre @ s # post). image_filename r \<noteq> Some u"
    and "image_filename s = Some target"
    and "endswith target (CHR ''_'' # u)"
    and "\<forall>r \<in> set pre. \<forall>t. image_filename r = Some t \<longrightarrow> \<not> endswith t (CHR ''_'' # u)"
  shows "match_target (pre @ s # post) u = Some target"
proof -
  let ?P = "\<lambda>s. image_filename s \<noteq> None"
  let ?Q = "\<lambda>s. endswith (the (image_filename s)) (CHR ''_'' # u)"
  have none: "find (\<lambda>s. image_filename s = Some u) (pre @ s # post) = None"
    using assms(1) by (auto simp: find_None_iff)
  have split: "filter ?P (pre @ s # post) = filter ?P pre @ s # filter ?P post"
    using assms(2) by simp
  have "\<forall>a \<in> set (filter ?P pre). \<not> ?Q a"
    using assms(4) by auto
  moreover have "?Q s" using assms(2,3) by simp
  ultimately have "find ?Q (filter ?P pre @ s # filter ?P post) = Some s"
    by (rule find_first_split)
  with none split show ?thesis
    using assms(2) by (simp add: match_target_def)
qed

lemma match_target_none:
  assumes "\<forall>s \<in> set tbl. image_filename s \<noteq> Some u"
    and "\<forall>s \<in> set tbl. \<forall>t. image_filename s = Some t \<longrightarrow> \<not> endswith t (CHR ''_'' # u)"
  shows "match_target tbl u = None"
proof -
  have "find (\<lambda>s. image_filename s = Some u) tbl = None"
    using assms(1) by (simp add: find_None_iff)
  moreover have "find (\<lambda>s. endswith (the (image_filename s)) (CHR ''_'' # u))
                   (filter (\<lambda>s. image_filename s \<noteq> None) tbl) = None"
    using assms(2) by (auto simp: find_None_iff)
  ultimately show ?thesis by (simp add: match_target_def)
qed

text \<open>
  Claim C1. For an uploaded file with an allowed extension, one iteration of the importer
  does the following. If some row has the uploaded filename as its \<open>image_filename\<close>, the
  bytes are written under that name. If no row has, and \<open>m\<close> is the first row of the
  table whose non-null \<open>image_filename\<close> ends with \<open>_\<close> followed by the uploaded
  filename, the bytes are written under the \<open>image_filename\<close> of \<open>m\<close>, not under the
  uploaded name. In both cases the write replaces what the folder held under that name
  and the file counts as a success. If no row matches either way, the folder is unchanged
  and the file counts as an error with the reason "No matching sighting found in database".
\<close>

theorem bulk_step_matching:
  assumes "allowed_file uploaded"
  shows "((\<exists>s \<in> set tbl. image_filename s = Some uploaded) \<longrightarrow>
            bulk_step tbl (uploaded, bytes) st =
              st\<lparr>folder_of := (folder_of st)(uploaded \<mapsto> bytes),
                 success_count := success_count st + 1\<rparr>) \<and>
         ((\<forall>s \<in> set tbl. image_filename s \<noteq> Some uploaded) \<and>
          tbl = pre @ m # post \<and> image_filename m = Some target \<and>
          endswith target (CHR ''_'' # uploaded) \<and>
          (\<forall>r \<in> set pre. \<forall>t. image_filename r = Some t \<longrightarrow>
                              \<not> endswith t (CHR ''_'' # uploaded)) \<longrightarrow>
            bulk_step tbl (uploaded, bytes) st =
              st\<lparr>folder_of := (folder_of st)(target \<mapsto> bytes),
                 success_count := success_count st + 1\<rparr>) \<and>
         ((\<forall>s \<in> set tbl. image_filename s \<noteq> Some uploaded) \<and>
          (\<forall>s \<in> set tbl. \<forall>t. image_filename s = Some t \<longrightarrow>
                              \<not> endswith t (CHR ''_'' # uploaded)) \<longrightarrow>
            bulk_step tbl (uploaded, bytes) st =
              st\<lparr>errors := errors st @ [uploaded @ '': No matching sighting found in database''],
                 error_count := error_count st + 1\<rparr>)"
proof -
  have ne: "uploaded \<noteq> []" using assms by (rule allowed_file_nonempty)
  show ?thesis
  proof (intro conjI impI)
    assume "\<exists>s \<in> set tbl. image_filename s = Some uploaded"
    then have "match_target tbl uploaded = Some uploaded" by (rule match_target_exact)
    then show "bulk_step tbl (uploaded, bytes) st =
              st\<lparr>folder_of := (folder_of st)(uploaded \<mapsto> bytes),
                 success_count := success_count st + 1\<rparr>"
      using assms ne by (simp add: bulk_step_def)
  next
    assume a: "(\<forall>s \<in> set tbl. image_filename s \<noteq> Some uploaded) \<and>
          tbl = pre @ m # post \<and> image_filename m = Some target \<and>
          endswith target (CHR ''_'' # uploaded) \<and>
          (\<forall>r \<in> set pre. \<forall>t. image_filename r = Some t \<longrightarrow>
                              \<not> endswith t (CHR ''_'' # uploaded))"
    then have "match_target (pre @ m # post) uploaded = Some target"
      by (intro match_target_suffix) auto
    then show "bulk_step tbl (uploaded, bytes) st =
              st\<lparr>folder_of := (folder_of st)(target \<mapsto> bytes),
                 success_count := success_count st + 1\<rparr>"
      using assms ne a by (simp add: bulk_step_def)
  next
    assume "(\<forall>s \<in> set tbl. image_filename s \<noteq> Some uploaded) \<and>
          (\<forall>s \<in> set tbl. \<forall>t. image_filename s = Some t \<longrightarrow>
                              \<not> endswith t (CHR ''_'' # uploaded))"
    then have "match_target tbl uploaded = None"
      by (intro match_target_none) auto
    then show "bulk_step tbl (uploaded, bytes) st =
              st\<lparr>errors := errors st @ [uploaded @ '': No matching sighting found in database''],
                 error_count := error_count st + 1\<rparr>"
      using assms ne by (simp add: bulk_step_def)
  qed
qed

theorem bulk_step_matching_witness:
  "allowed_file ''sighting_5_photo.jpg'' \<and> allowed_file ''photo.jpg'' \<and>
   allowed_file ''unrelated.png'' \<and>
   bulk_step
     [\<lparr>sighting_id = 5, state = ''CA'', license_plate = ''ABC1234'', car_make = ''Honda'',
       car_model = ''Civic'', color = ''Blue'', location = None, timestamp = None,
       notes_field = None, image_filename = Some ''sighting_5_photo.jpg''\<rparr>]
     (''sighting_5_photo.jpg'', ''new'') (bulk_init [''sighting_5_photo.jpg'' \<mapsto> ''old'']) =
     \<lparr>success_count = 1, error_count = 0, errors = [],
      folder_of = [''sighting_5_photo.jpg'' \<mapsto> ''new'']\<rparr> \<and>
   bulk_step
     [\<lparr>sighting_id = 5, state = ''CA'', license_plate = ''ABC1234'', car_make = ''Honda'',
       car_model = ''Civic'', color = ''Blue'', location = None, timestamp = None,
       notes_field = None, image_filename = Some ''sighting_5_photo.jpg''\<rparr>]
     (''photo.jpg'', ''new'') (bulk_init [''sighting_5_photo.jpg'' \<mapsto> ''old'']) =
     \<lparr>success_count = 1, error_count = 0, errors = [],
      folder_of = [''sighting_5_photo.jpg'' \<mapsto> ''new'']\<rparr> \<and>
   bulk_step
     [\<lparr>sighting_id = 5, state = ''CA'', license_plate = ''ABC1234'', car_make = ''Honda'',
       car_model = ''Civic'', color = ''Blue'', location = None, timestamp = None,
       notes_field = None, image_filename = Some ''sighting_5_photo.jpg''\<rparr>]
     (''unrelated.png'', ''new'') (bulk_init [''sighting_5_photo.jpg'' \<mapsto> ''old'']) =
     \<lparr>success_count = 0, error_count = 1,
      errors = [''unrelated.png: No matching sighting found in database''],
      folder_of = [''sighting_5_photo.jpg'' \<mapsto> ''old'']\<rparr>"
proof -
  let ?r = "\<lparr>sighting_id = 5, state = ''CA'', license_plate = ''ABC1234'', car_make = ''Honda'',
       car_model = ''Civic'', color = ''Blue'', location = None, timestamp = None,
       notes_field = None, image_filename = Some ''sighting_5_photo.jpg''\<rparr>"
  let ?st = "bulk_init [''sighting_5_photo.jpg'' \<mapsto> ''old'']"
  have a1: "allowed_file ''sighting_5_photo.jpg''" and a2: "allowed_file ''photo.jpg''"
    and a3: "allowed_file ''unrelated.png''"
    by (simp_all add: allowed_file_def rsplit_dot_last_def str_lower_def char_lower_def
        ascii_lowercase_def ascii_uppercase_def ALLOWED_EXTENSIONS_def)
  show ?thesis
    using a1 a2 a3
      bulk_step_matching [OF a1, where tbl = "[?r]" and bytes = "''new''" and st = ?st]
      bulk_step_matching [OF a2, where tbl = "[?r]" and pre = "[]" and m = ?r and post = "[]"
        and target = "''sighting_5_photo.jpg''" and bytes = "''new''" and st = ?st]
      bulk_step_matching [OF a3, where tbl = "[?r]" and bytes = "''new''" and st = ?st]
    by (simp add: endswith_def bulk_init_def)
qed

lemma bulk_step_counts:
  "success_count (bulk_step tbl f st) + error_count (bulk_step tbl f st) =
     success_count st + error_count st + (if fst f = [] then 0 else 1)"
  by (simp add: bulk_step_def Let_def split: option.splits)

lemma bulk_loop_counts:
  "success_count (bulk_loop tbl fs st) + error_count (bulk_loop tbl fs st) =
     success_count st + error_count st + length (filter (\<lambda>f. fst f \<noteq> []) fs)"
  by (induction fs arbitrary: st) (simp_all add: bulk_step_counts)

text \<open>
  Claim C10. An uploaded file with the empty filename leaves the totals, the error list and
  the folder as they were, and after any batch the success count plus the error count is
  the number of files whose filename is not empty.
\<close>

theorem bulk_empty_filename_skipped:
  "bulk_step tbl ([], bytes) st = st \<and>
   success_count (bulk_loop tbl files (bulk_init up)) +
     error_count (bulk_loop tbl files (bulk_init up)) =
     length (filter (\<lambda>f. fst f \<noteq> []) files)"
  by (simp add: bulk_step_def bulk_loop_counts) (simp add: bulk_init_def)

theorem bulk_empty_filename_skipped_witness:
  "success_count (bulk_loop [] [([], ''a''), (''photo.jpg'', ''b''), (''notes.txt'', ''c'')]
                   (bulk_init Map.empty)) +
   error_count (bulk_loop [] [([], ''a''), (''photo.jpg'', ''b''), (''notes.txt'', ''c'')]
                   (bulk_init Map.empty)) = 2"
  using bulk_empty_filename_skipped
    [of "[]" "''a''" "bulk_init Map.empty" "[([], ''a''), (''photo.jpg'', ''b''), (''notes.txt'', ''c'')]"
        Map.empty]
  by (simp del: bulk_loop.simps)

section \<open>Properties of the export engine\<close>

lemma char_lower_cases:
  "char_lower c = CHR ''t'' \<longleftrightarrow> c \<in> set ''tT''"
  "char_lower c = CHR ''r'' \<longleftrightarrow> c \<in> set ''rR''"
  "char_lower c = CHR ''u'' \<longleftrightarrow> c \<in> set ''uU''"
  "char_lower c = CHR ''e'' \<longleftrightarrow> c \<in> set ''eE''"
  by (auto simp: char_lower_def ascii_lowercase_def ascii_uppercase_def split: if_splits)

lemma str_lower_true: "str_lower v = ''true'' \<longleftrightarrow> caseless_true v"
proof (cases v)
  case Nil
  then show ?thesis by (simp add: str_lower_def caseless_true_def)
next
  case (Cons a v1)
  show ?thesis
  proof (cases v1)
    case Nil
    with Cons show ?thesis by (simp add: str_lower_def caseless_true_def)
  next
    case (Cons b v2)
    note c2 = this
    show ?thesis
    proof (cases v2)
      case Nil
      with \<open>v = a # v1\<close> c2 show ?thesis by (simp add: str_lower_def caseless_true_def)
    next
      case (Cons c v3)
      note c3 = this
      show ?thesis
      proof (cases v3)
        case Nil
        with \<open>v = a # v1\<close> c2 c3 show ?thesis by (simp add: str_lower_def caseless_true_def)
      next
        case (Cons d v4)
        with \<open>v = a # v1\<close> c2 c3 show ?thesis
          by (cases v4) (simp_all add: str_lower_def caseless_true_def char_lower_cases)
      qed
    qed
  qed
qed

lemma include_notes_of_eq: "include_notes_of args = notes_requested args"
  by (simp add: include_notes_of_def notes_requested_def args_get_def str_lower_true
        split: option.splits)
     (simp add: caseless_true_def)

lemma join_lines: "join [CHR 0x0A] ls = lines_text ls"
  by (induction ls rule: lines_text.induct) simp_all

lemma writerow_expected:
  "writerow (fieldnames_of b) (csv_row b s) = expected_row b s"
  by (simp add: writerow_def fieldnames_of_def csv_row_def expected_row_def)

lemma csv_rows_expected: "csv_rows b sightings = expected_csv b sightings"
  by (simp add: csv_rows_def expected_csv_def writerow_expected)
     (simp add: fieldnames_of_def expected_header_def)

lemma python_lines_expected:
  "map (\<lambda>d. ''    {'' @ join '', '' (map format_item d) @ ''},'') (map (data_dict b) ss) =
     map (expected_line b) ss"
  by (simp add: data_dict_def format_item_def expected_line_def quoted_def)

lemma export_python_expected:
  "export_python args sightings = expected_python (include_notes_of args) sightings"
  unfolding export_python_def plates_data_of_def python_lines_expected join_lines
    expected_python_def
  by (rule refl)

text \<open>
  Claim C9. For every export request, the notes are included exactly when the query
  parameter \<open>include_notes\<close> is absent or is \<open>true\<close> in any mix of cases, and left out for
  any other value, by the same rule in the three formats: the rows written by the CSV
  export and the rows of the CSV member of the archive are the expected rows for that answer
  (the column \<open>notes\<close> and its value in every row, or neither), and the text returned by
  the code-literal export is the expected text for that answer (the item \<open>notes\<close> in every
  dictionary, or in none).
\<close>

theorem include_notes_uniform:
  "export_csv args sightings = expected_csv (notes_requested args) sightings \<and>
   csv_member (export_zip args up sightings) = expected_csv (notes_requested args) sightings \<and>
   export_python args sightings = expected_python (notes_requested args) sightings"
  by (simp add: export_csv_def export_zip_def export_python_expected csv_rows_expected
        include_notes_of_eq)

theorem include_notes_uniform_witness:
  "export_csv [''include_notes'' \<mapsto> ''TRUE''] [sample_sighting 3 (Some sample_time) None] =
     [[''state'', ''license_plate'', ''car_make'', ''car_model'', ''color'', ''location'',
       ''timestamp'', ''notes'', ''image_filename''],
      [''CA'', ''ABC1234'', ''Honda'', ''Civic'', ''Blue'', ''Downtown LA'',
       ''2025-10-10 09:15:00'', ''Seen near coffee shop'', []]] \<and>
   export_csv Map.empty [sample_sighting 3 (Some sample_time) None] =
     export_csv [''include_notes'' \<mapsto> ''TRUE''] [sample_sighting 3 (Some sample_time) None] \<and>
   export_csv [''include_notes'' \<mapsto> ''no''] [sample_sighting 3 (Some sample_time) None] =
     [[''state'', ''license_plate'', ''car_make'', ''car_model'', ''color'', ''location'',
       ''timestamp'', ''image_filename''],
      [''CA'', ''ABC1234'', ''Honda'', ''Civic'', ''Blue'', ''Downtown LA'',
       ''2025-10-10 09:15:00'', []]] \<and>
   csv_member (export_zip [''include_notes'' \<mapsto> ''no''] Map.empty
                 [sample_sighting 3 (Some sample_time) None]) =
     export_csv [''include_notes'' \<mapsto> ''no''] [sample_sighting 3 (Some sample_time) None] \<and>
   export_python [''include_notes'' \<mapsto> ''TRUE''] [sample_sighting 3 (Some sample_time) None] =
     lines_text
       [''# Generated export from License Plate Tracker'',
        ''# Copy the plates_data list into your seed_data.py file'',
        [],
        ''plates_data = ['',
        ''    {'' @ quoted ''state'' @ '': '' @ quoted ''CA'' @ '', '' @
          quoted ''plate'' @ '': '' @ quoted ''ABC1234'' @ '', '' @
          quoted ''make'' @ '': '' @ quoted ''Honda'' @ '', '' @
          quoted ''model'' @ '': '' @ quoted ''Civic'' @ '', '' @
          quoted ''color'' @ '': '' @ quoted ''Blue'' @ '', '' @
          quoted ''location'' @ '': '' @ quoted ''Downtown LA'' @ '', '' @
          quoted ''timestamp'' @ '': '' @ quoted ''2025-10-10 09:15:00'' @ '', '' @
          quoted ''image_filename'' @ '': '' @ quoted [] @ '', '' @
          quoted ''notes'' @ '': '' @ quoted ''Seen near coffee shop'' @ ''},'',
        '']''] \<and>
   export_python [''include_notes'' \<mapsto> ''no''] [sample_sighting 3 (Some sample_time) None] =
     lines_text
       [''# Generated export from License Plate Tracker'',
        ''# Copy the plates_data list into your seed_data.py file'',
        [],
        ''plates_data = ['',
        ''    {'' @ quoted ''state'' @ '': '' @ quoted ''CA'' @ '', '' @
          quoted ''plate'' @ '': '' @ quoted ''ABC1234'' @ '', '' @
          quoted ''make'' @ '': '' @ quoted ''Honda'' @ '', '' @
          quoted ''model'' @ '': '' @ quoted ''Civic'' @ '', '' @
          quoted ''color'' @ '': '' @ quoted ''Blue'' @ '', '' @
          quoted ''location'' @ '': '' @ quoted ''Downtown LA'' @ '', '' @
          quoted ''timestamp'' @ '': '' @ quoted ''2025-10-10 09:15:00'' @ '', '' @
          quoted ''image_filename'' @ '': '' @ quoted [] @ ''},'',
        '']'']"
proof -
  have t: "timestamp_text (sample_sighting 3 (Some sample_time) None) = ''2025-10-10 09:15:00''"
    by (simp add: timestamp_text_def sample_sighting_def sample_time_def strftime_seconds_def
          pad2_def str_nat.simps digit_char_def digits_def)
  have n: "notes_requested [''include_notes'' \<mapsto> ''TRUE'']"
    "notes_requested Map.empty" "\<not> notes_requested [''include_notes'' \<mapsto> ''no'']"
    by (simp_all add: notes_requested_def caseless_true_def)
  have f: "state (sample_sighting 3 (Some sample_time) None) = ''CA''"
    "license_plate (sample_sighting 3 (Some sample_time) None) = ''ABC1234''"
    "car_make (sample_sighting 3 (Some sample_time) None) = ''Honda''"
    "car_model (sample_sighting 3 (Some sample_time) None) = ''Civic''"
    "color (sample_sighting 3 (Some sample_time) None) = ''Blue''"
    "location (sample_sighting 3 (Some sample_time) None) = Some ''Downtown LA''"
    "notes_field (sample_sighting 3 (Some sample_time) None) = Some ''Seen near coffee shop''"
    "image_filename (sample_sighting 3 (Some sample_time) None) = None"
    by (simp_all add: sample_sighting_def)
  show ?thesis
    using
      include_notes_uniform [of "[''include_notes'' \<mapsto> ''TRUE'']"
        "[sample_sighting 3 (Some sample_time) None]" Map.empty]
      include_notes_uniform [of Map.empty "[sample_sighting 3 (Some sample_time) None]" Map.empty]
      include_notes_uniform [of "[''include_notes'' \<mapsto> ''no'']"
        "[sample_sighting 3 (Some sample_time) None]" Map.empty]
    by (simp add: n t f expected_csv_def expected_header_def expected_row_def
          expected_python_def expected_line_def or_empty_def)
qed

lemma fold_copy_image:
  "fold (copy_image up) xs acc fn =
     (if fn \<noteq> [] \<and> Some fn \<in> image_filename ` set xs \<and> up fn \<noteq> None
      then up fn else acc fn)"
proof (induction xs arbitrary: acc)
  case Nil
  then show ?case by simp
next
  case (Cons x xs)
  show ?case
    by (simp add: Cons.IH) (auto simp: copy_image_def split: option.splits)
qed

text \<open>
  Claim C6. The archive has an image member for a filename exactly when the filename is not
  empty, some sighting refers to it and the upload folder holds a file under it; so a
  sighting whose image file is missing contributes no member. The CSV of the archive has
  the header and then one row for each sighting, whatever images are missing.
\<close>

theorem export_zip_members:
  "image_members (export_zip args up sightings) fn =
     (if fn \<noteq> [] \<and> Some fn \<in> image_filename ` set sightings then up fn else None) \<and>
   (\<forall>s \<in> set sightings. image_filename s = Some fn \<and> up fn = None \<longrightarrow>
      image_members (export_zip args up sightings) fn = None) \<and>
   hd (csv_member (export_zip args up sightings)) = fieldnames_of (include_notes_of args) \<and>
   length (tl (csv_member (export_zip args up sightings))) = length sightings"
  by (auto simp: export_zip_def fold_copy_image csv_rows_def)

theorem export_zip_members_witness:
  "image_filename (sample_sighting 2 None (Some ''sighting_2_gone.jpg'')) =
     Some ''sighting_2_gone.jpg'' \<and>
   [''sighting_1_a.jpg'' \<mapsto> ''A''] ''sighting_2_gone.jpg'' = None \<and>
   image_members
     (export_zip Map.empty [''sighting_1_a.jpg'' \<mapsto> ''A'']
        [sample_sighting 1 None (Some ''sighting_1_a.jpg''),
         sample_sighting 2 None (Some ''sighting_2_gone.jpg'')])
     ''sighting_2_gone.jpg'' = None \<and>
   length (tl (csv_member
     (export_zip Map.empty [''sighting_1_a.jpg'' \<mapsto> ''A'']
        [sample_sighting 1 None (Some ''sighting_1_a.jpg''),
         sample_sighting 2 None (Some ''sighting_2_gone.jpg'')]))) = 2"
  using export_zip_members
    [of Map.empty "[''sighting_1_a.jpg'' \<mapsto> ''A'']"
        "[sample_sighting 1 None (Some ''sighting_1_a.jpg''),
          sample_sighting 2 None (Some ''sighting_2_gone.jpg'')]"
        "''sighting_2_gone.jpg''"]
  by (simp add: sample_sighting_def)

section \<open>Properties of the sighting service\<close>

lemmas count_defs = file_writes_def file_deletes_def commits_def

lemma bind_exn_Inr: "bind_exn m f = Inr y \<longleftrightarrow> (\<exists>a. m = Inr a \<and> f a = Inr y)"
  by (cases m) (simp_all add: bind_exn_def)

lemma bind_exn_simps [simp]:
  "bind_exn (Inr a) f = f a"
  "bind_exn (Inl e) f = Inl e"
  by (simp_all add: bind_exn_def)

lemmas parse_simps = strptime_minutes_def strptime_date_def strptime_seconds_def
  then_p_def return_p_def dir_Y_def dir_m_def dir_d_def dir_H_def dir_M_def
  dir_S_def re_one_def re_two_def lit_def digits_def nonzero_digits_def digit_val_def finish_def
  mk_datetime_def valid_datetime_def days_in_month_def is_leap_def ws_plus_def whitespace_def

lemma count_append [simp]:
  "file_writes (a @ b) = file_writes a + file_writes b"
  "file_deletes (a @ b) = file_deletes a + file_deletes b"
  "commits (a @ b) = commits a + commits b"
  by (simp_all add: count_defs)

lemma count_single [simp]:
  "file_writes [SessionAdd, SessionFlush] = 0" "file_deletes [SessionAdd, SessionFlush] = 0"
  "commits [SessionAdd, SessionFlush] = 0"
  "file_writes [SessionCommit] = 0" "file_deletes [SessionCommit] = 0" "commits [SessionCommit] = 1"
  "file_writes [SessionRollback] = 0" "file_deletes [SessionRollback] = 0"
  "commits [SessionRollback] = 0"
  "file_writes [SessionDelete, SessionCommit] = 0" "file_deletes [SessionDelete, SessionCommit] = 0"
  "commits [SessionDelete, SessionCommit] = 1"
  "file_writes [FileSave n] = 1" "file_deletes [FileSave n] = 0" "commits [FileSave n] = 0"
  "file_writes [OsRemove n] = 0" "file_deletes [OsRemove n] = 1" "commits [OsRemove n] = 0"
  by (simp_all add: count_defs)

lemma count_nil [simp]: "file_writes [] = 0" "file_deletes [] = 0" "commits [] = 0"
  by (simp_all add: count_defs)

lemma flash_msg_frame [simp]:
  "effects (flash_msg m w) = effects w" "table (flash_msg m w) = table w"
  "uploads (flash_msg m w) = uploads w" "db_refuses (flash_msg m w) = db_refuses w"
  "unwritable (flash_msg m w) = unwritable w" "undeletable (flash_msg m w) = undeletable w"
  by (simp_all add: flash_msg_def)

lemma step_ok_refl [simp]: "step_ok wr rm w w"
  by (simp add: step_ok_def count_defs)

lemma step_ok_flash [simp]: "step_ok wr rm w (flash_msg m w)"
  by (simp add: step_ok_def count_defs)

lemma step_ok_trans:
  assumes "step_ok a b w w'" and "step_ok c d w' w''"
  shows "step_ok (a + c) (b + d) w w''"
proof -
  from assms(1) obtain es where es: "effects w' = effects w @ es" "file_writes es \<le> a"
    "file_deletes es \<le> b" "commits es = 0"
    by (auto simp: step_ok_def)
  from assms(2) obtain fs where fs: "effects w'' = effects w' @ fs" "file_writes fs \<le> c"
    "file_deletes fs \<le> d" "commits fs = 0"
    by (auto simp: step_ok_def)
  have "effects w'' = effects w @ (es @ fs)" "file_writes (es @ fs) \<le> a + c"
    "file_deletes (es @ fs) \<le> b + d" "commits (es @ fs) = 0"
    using es fs by simp_all
  then have "\<exists>gs. effects w'' = effects w @ gs \<and> file_writes gs \<le> a + c \<and>
                 file_deletes gs \<le> b + d \<and> commits gs = 0"
    by blast
  with assms show ?thesis by (simp add: step_ok_def)
qed

lemma step_ok_counts:
  assumes "step_ok wr rm w w'"
  shows "file_writes (effects w') \<le> file_writes (effects w) + wr"
    and "file_deletes (effects w') \<le> file_deletes (effects w) + rm"
    and "file_deletes (effects w) \<le> file_deletes (effects w')"
    and "commits (effects w') = commits (effects w)"
    and "table w' = table w" and "db_refuses w' = db_refuses w"
    and "unwritable w' = unwritable w"
  using assms by (auto simp: step_ok_def)

lemma delete_image_step: "step_ok 0 (Suc 0) w (snd (delete_image f w))"
  by (simp add: delete_image_def step_ok_def split: option.splits)

lemma save_image_step:
  "save_image env file sid w = Inl (e, w') \<Longrightarrow> step_ok (Suc 0) 0 w w'"
  "save_image env file sid w = Inr (x, w') \<Longrightarrow> step_ok (Suc 0) 0 w w'"
  by (auto simp: save_image_def step_ok_def Let_def split: if_splits)

lemma add_upload_step:
  "add_upload env img sw = Inl (e, w') \<Longrightarrow> step_ok (Suc 0) 0 (snd sw) w'"
  "add_upload env img sw = Inr (r, w') \<Longrightarrow> step_ok (Suc 0) 0 (snd sw) w'"
  by (auto simp: add_upload_def split: option.splits if_splits sum.splits prod.splits
        dest: save_image_step)

lemma add_upload_row:
  "add_upload env img sw = Inr (r, w') \<Longrightarrow>
     state r = state (fst sw) \<and> license_plate r = license_plate (fst sw) \<and>
     timestamp r = timestamp (fst sw) \<and> sighting_id r = sighting_id (fst sw)"
  by (auto simp: add_upload_def split: option.splits if_splits sum.splits prod.splits)

lemma edit_remove_image_step: "step_ok 0 (Suc 0) (snd sw) (snd (edit_remove_image form sw))"
  using delete_image_step [of "snd sw" "image_filename (fst sw)"]
  by (simp add: edit_remove_image_def)

lemma edit_remove_image_row:
  "state (fst (edit_remove_image form sw)) = state (fst sw)"
  "license_plate (fst (edit_remove_image form sw)) = license_plate (fst sw)"
  "sighting_id (fst (edit_remove_image form sw)) = sighting_id (fst sw)"
  by (simp_all add: edit_remove_image_def)

text \<open>After a removal that deleted, the row has no image, so the upload block deletes nothing.\<close>

lemma edit_remove_image_deleted:
  "file_deletes (effects (snd (edit_remove_image form sw))) \<noteq> file_deletes (effects (snd sw))
     \<Longrightarrow> image_filename (fst (edit_remove_image form sw)) = None"
  by (simp add: edit_remove_image_def split: if_splits)

lemma save_image_after:
  assumes "step_ok a b w0 w2"
  shows "save_image env f i w2 = Inl (e, w') \<Longrightarrow> step_ok (Suc a) b w0 w'"
    and "save_image env f i w2 = Inr (x, w') \<Longrightarrow> step_ok (Suc a) b w0 w'"
  using step_ok_trans [OF assms, of "Suc 0" 0 w'] by (auto dest: save_image_step)

lemma edit_upload_step:
  "edit_upload env img sw = Inl (e, w') \<Longrightarrow> step_ok (Suc 0) (Suc 0) (snd sw) w'"
  "edit_upload env img sw = Inr (r, w') \<Longrightarrow> step_ok (Suc 0) (Suc 0) (snd sw) w'"
  unfolding edit_upload_def Let_def
  by (auto split: option.splits if_splits sum.splits prod.splits
        intro: save_image_after [OF delete_image_step] save_image_after [OF step_ok_refl])

lemma edit_upload_no_image:
  assumes "image_filename (fst sw) = None"
  shows "edit_upload env img sw = Inl (e, w') \<Longrightarrow> step_ok (Suc 0) 0 (snd sw) w'"
    and "edit_upload env img sw = Inr (r, w') \<Longrightarrow> step_ok (Suc 0) 0 (snd sw) w'"
  using assms
  by (auto simp: edit_upload_def truthy_def Let_def
        split: option.splits if_splits sum.splits prod.splits
        intro: save_image_after [OF step_ok_refl])

lemma edit_upload_row:
  "edit_upload env img sw = Inr (r, w') \<Longrightarrow>
     state r = state (fst sw) \<and> license_plate r = license_plate (fst sw) \<and>
     sighting_id r = sighting_id (fst sw)"
  by (auto simp: edit_upload_def Let_def split: option.splits if_splits sum.splits prod.splits)

lemma edit_blocks_step:
  assumes "edit_upload env img (edit_remove_image form sw) = Inl (e, w') \<or>
           edit_upload env img (edit_remove_image form sw) = Inr (r, w')"
  shows "step_ok (Suc 0) (Suc 0) (snd sw) w'"
proof (cases "file_deletes (effects (snd (edit_remove_image form sw))) = file_deletes (effects (snd sw))")
  case True
  have "step_ok (Suc 0) (Suc 0) (snd (edit_remove_image form sw)) w'"
    using assms by (auto dest: edit_upload_step)
  with True edit_remove_image_step [of sw form] show ?thesis
    by (auto simp: step_ok_def)
next
  case False
  then have "image_filename (fst (edit_remove_image form sw)) = None"
    by (rule edit_remove_image_deleted)
  then have "step_ok (Suc 0) 0 (snd (edit_remove_image form sw)) w'"
    using assms by (auto dest: edit_upload_no_image)
  with edit_remove_image_step [of sw form] show ?thesis
    by (auto simp: step_ok_def)
qed

lemma bounded_step:
  "step_ok (Suc 0) rm w0 w1 \<Longrightarrow> effects w0 = effects w @ es \<Longrightarrow> file_writes es = 0 \<Longrightarrow>
   file_deletes es = 0 \<Longrightarrow> commits es = 0 \<Longrightarrow>
   effects w' = effects w1 @ fs \<Longrightarrow> file_writes fs = 0 \<Longrightarrow> file_deletes fs = 0 \<Longrightarrow>
   commits fs \<le> Suc 0 \<Longrightarrow> bounded rm w w'"
  by (auto simp: step_ok_def bounded_def)

lemma add_sighting_try_Inl:
  assumes "add_sighting_try env form img w = Inl (e, w')"
  shows "table w' = table w \<and> bounded 0 w w'"
proof (cases "new_sighting env form")
  case (Inl e0)
  with assms show ?thesis by (simp add: add_sighting_try_def bounded_def)
next
  case (Inr r0)
  let ?w1 = "w\<lparr>effects := effects w @ [SessionAdd, SessionFlush]\<rparr>"
  show ?thesis
  proof (cases "db_refuses w r0")
    case True
    with assms Inr show ?thesis by (auto simp: add_sighting_try_def bounded_def)
  next
    case False
    show ?thesis
    proof (cases "add_upload env img (r0, ?w1)")
      case (Inl ew)
      with assms Inr False have ew: "ew = (e, w')" by (simp add: add_sighting_try_def)
      with Inl have st: "step_ok (Suc 0) 0 ?w1 w'" using add_upload_step(1) by fastforce
      then have "bounded 0 w w'"
        by (rule bounded_step [where es = "[SessionAdd, SessionFlush]" and fs = "[]"]) simp_all
      moreover have "table w' = table w" using step_ok_counts(5) [OF st] by simp
      ultimately show ?thesis by simp
    next
      case sw: (Inr sw)
      then have st: "step_ok (Suc 0) 0 ?w1 (snd sw)"
        using add_upload_step(2) [of env img "(r0, ?w1)" "fst sw" "snd sw"] by simp
      from assms Inr False sw
      have w': "w' = (snd sw)\<lparr>effects := effects (snd sw) @ [SessionCommit]\<rparr>"
        by (simp add: add_sighting_try_def Let_def split: if_splits)
      have "bounded 0 w w'"
        by (rule bounded_step [OF st, where es = "[SessionAdd, SessionFlush]"
              and fs = "[SessionCommit]"]) (simp_all add: w')
      moreover have "table w' = table w" using step_ok_counts(5) [OF st] by (simp add: w')
      ultimately show ?thesis by simp
    qed
  qed
qed

lemma add_sighting_try_Inr:
  assumes "add_sighting_try env form img w = Inr w'"
  shows "\<exists>r0 r. new_sighting env form = Inr r0 \<and> table w' = table w @ [r] \<and>
           state r = state r0 \<and> license_plate r = license_plate r0 \<and>
           timestamp r = timestamp r0 \<and> sighting_id r = sighting_id r0"
    and "bounded 0 w w'"
proof -
  let ?w1 = "w\<lparr>effects := effects w @ [SessionAdd, SessionFlush]\<rparr>"
  from assms obtain r0 sw where r0: "new_sighting env form = Inr r0"
    and sw: "add_upload env img (r0, ?w1) = Inr sw"
    and w': "w' = flash_msg (Flash ''Sighting added successfully!'' ''success'')
                    ((snd sw)\<lparr>effects := effects (snd sw) @ [SessionCommit],
                              table := table (snd sw) @ [fst sw]\<rparr>)"
    by (auto simp: add_sighting_try_def Let_def split: sum.splits if_splits prod.splits)
  have st: "step_ok (Suc 0) 0 ?w1 (snd sw)"
    using add_upload_step(2) [of env img "(r0, ?w1)" "fst sw" "snd sw"] sw by simp
  have row: "state (fst sw) = state r0 \<and> license_plate (fst sw) = license_plate r0 \<and>
             timestamp (fst sw) = timestamp r0 \<and> sighting_id (fst sw) = sighting_id r0"
    using add_upload_row [of env img "(r0, ?w1)" "fst sw" "snd sw"] sw by simp
  have "table w' = table w @ [fst sw]"
    using step_ok_counts(5) [OF st] by (simp add: w')
  with r0 row show "\<exists>r0 r. new_sighting env form = Inr r0 \<and> table w' = table w @ [r] \<and>
           state r = state r0 \<and> license_plate r = license_plate r0 \<and>
           timestamp r = timestamp r0 \<and> sighting_id r = sighting_id r0"
    by blast
  show "bounded 0 w w'"
    by (rule bounded_step [OF st, where es = "[SessionAdd, SessionFlush]"
          and fs = "[SessionCommit]"]) (simp_all add: w')
qed

lemma form_required_Inr: "form_required form k = Inr v \<longleftrightarrow> form k = Some v"
  by (simp add: form_required_def split: option.splits)

lemma new_sighting_Inr:
  "new_sighting env form = Inr r0 \<longleftrightarrow>
     (\<exists>ts st lp mk md cl.
        form_timestamp env form (utcnow env) (\<lambda>t. t) = Inr ts \<and> form ''state'' = Some st \<and>
        form ''license_plate'' = Some lp \<and> form ''car_make'' = Some mk \<and>
        form ''car_model'' = Some md \<and> form ''color'' = Some cl \<and>
        r0 = \<lparr>sighting_id = flush_id env, state = upper env st, license_plate = upper env lp,
              car_make = mk, car_model = md, color = cl, location = form ''location'',
              timestamp = Some ts, notes_field = form ''notes'', image_filename = None\<rparr>)"
  unfolding new_sighting_def bind_exn_Inr form_required_Inr by auto

lemma edited_sighting_Inr:
  "edited_sighting env form sighting = Inr s1 \<longleftrightarrow>
     (\<exists>ts st lp mk md cl.
        form_timestamp env form (timestamp sighting) Some = Inr ts \<and>
        form ''state'' = Some st \<and> form ''license_plate'' = Some lp \<and>
        form ''car_make'' = Some mk \<and> form ''car_model'' = Some md \<and>
        form ''color'' = Some cl \<and>
        s1 = sighting\<lparr>state := upper env st, license_plate := upper env lp,
                       car_make := mk, car_model := md, color := cl,
                       location := form ''location'', timestamp := ts,
                       notes_field := form ''notes''\<rparr>)"
  unfolding edited_sighting_def bind_exn_Inr form_required_Inr by auto

lemma edited_sighting_id:
  "edited_sighting env form sighting = Inr s1 \<Longrightarrow> sighting_id s1 = sighting_id sighting"
  by (auto simp: edited_sighting_Inr)

lemma edit_sighting_try_Inl:
  assumes "edit_sighting_try env form img sighting w = Inl (e, w')"
  shows "table w' = table w \<and> bounded (Suc 0) w w'"
proof (cases "edited_sighting env form sighting")
  case (Inl e0)
  with assms show ?thesis by (simp add: edit_sighting_try_def bounded_def)
next
  case (Inr s1)
  show ?thesis
  proof (cases "edit_upload env img (edit_remove_image form (s1, w))")
    case (Inl ew)
    with assms Inr have ew: "ew = (e, w')" by (simp add: edit_sighting_try_def)
    with Inl have st: "step_ok (Suc 0) (Suc 0) w w'"
      using edit_blocks_step [of env img form "(s1, w)" e w'] by simp
    then have "bounded (Suc 0) w w'"
      by (rule bounded_step [where es = "[]" and fs = "[]"]) simp_all
    moreover have "table w' = table w" using step_ok_counts(5) [OF st] by simp
    ultimately show ?thesis by simp
  next
    case sw: (Inr sw)
    then have st: "step_ok (Suc 0) (Suc 0) w (snd sw)"
      using edit_blocks_step [of env img form "(s1, w)" _ "snd sw" "fst sw"] by simp
    from assms Inr sw
    have w': "w' = (snd sw)\<lparr>effects := effects (snd sw) @ [SessionCommit]\<rparr>"
      by (simp add: edit_sighting_try_def Let_def split: if_splits)
    have "bounded (Suc 0) w w'"
      by (rule bounded_step [OF st, where es = "[]" and fs = "[SessionCommit]"])
         (simp_all add: w')
    moreover have "table w' = table w" using step_ok_counts(5) [OF st] by (simp add: w')
    ultimately show ?thesis by simp
  qed
qed

lemma edit_sighting_try_Inr:
  assumes "edit_sighting_try env form img sighting w = Inr w'"
  shows "\<exists>s1 r. edited_sighting env form sighting = Inr s1 \<and>
           table w' = map (\<lambda>x. if sighting_id x = sighting_id sighting then r else x) (table w) \<and>
           state r = state s1 \<and> license_plate r = license_plate s1 \<and>
           sighting_id r = sighting_id sighting"
    and "bounded (Suc 0) w w'"
proof -
  from assms obtain s1 sw where s1: "edited_sighting env form sighting = Inr s1"
    and sw: "edit_upload env img (edit_remove_image form (s1, w)) = Inr sw"
    and w': "w' = flash_msg (Flash ''Sighting updated successfully!'' ''success'')
                    ((snd sw)\<lparr>effects := effects (snd sw) @ [SessionCommit],
                              table := map (\<lambda>r. if sighting_id r = sighting_id sighting
                                                then fst sw else r) (table (snd sw))\<rparr>)"
    by (auto simp: edit_sighting_try_def Let_def split: sum.splits if_splits prod.splits)
  have st: "step_ok (Suc 0) (Suc 0) w (snd sw)"
    using edit_blocks_step [of env img form "(s1, w)" _ "snd sw" "fst sw"] sw by simp
  have row: "state (fst sw) = state s1 \<and> license_plate (fst sw) = license_plate s1 \<and>
             sighting_id (fst sw) = sighting_id sighting"
    using edit_upload_row [of env img "edit_remove_image form (s1, w)" "fst sw" "snd sw"] sw
      edited_sighting_id [OF s1]
    by (simp add: edit_remove_image_row)
  have "table w' = map (\<lambda>x. if sighting_id x = sighting_id sighting then fst sw else x) (table w)"
    using step_ok_counts(5) [OF st] by (simp add: w')
  with s1 row show "\<exists>s1 r. edited_sighting env form sighting = Inr s1 \<and>
           table w' = map (\<lambda>x. if sighting_id x = sighting_id sighting then r else x) (table w) \<and>
           state r = state s1 \<and> license_plate r = license_plate s1 \<and>
           sighting_id r = sighting_id sighting"
    by blast
  show "bounded (Suc 0) w w'"
    by (rule bounded_step [OF st, where es = "[]" and fs = "[SessionCommit]"])
       (simp_all add: w')
qed

lemma bounded_rollback:
  "bounded rm w w' \<Longrightarrow>
     bounded rm w (flash_msg m (w'\<lparr>effects := effects w' @ [SessionRollback]\<rparr>))"
  by (simp add: bounded_def)

lemma bounded_refl [simp]: "bounded rm w w" "bounded rm w (flash_msg m w)"
  by (simp_all add: bounded_def)

lemma add_sighting_bounds:
  "bounded 0 w (snd (add_sighting env meth form img w)) \<and>
   (table (snd (add_sighting env meth form img w)) = table w \<or>
    (\<exists>r. table (snd (add_sighting env meth form img w)) = table w @ [r]))"
proof (cases meth)
  case GET
  then show ?thesis by (simp add: add_sighting_def)
next
  case POST
  show ?thesis
  proof (cases "add_sighting_try env form img w")
    case (Inl ew)
    obtain e w' where ew: "ew = (e, w')" by (cases ew)
    from add_sighting_try_Inl [of env form img w e w'] Inl ew
    have "table w' = table w" "bounded 0 w w'" by simp_all
    with POST Inl ew show ?thesis
      by (simp add: add_sighting_def bounded_rollback)
  next
    case (Inr w')
    from add_sighting_try_Inr [OF Inr] POST Inr show ?thesis
      by (auto simp: add_sighting_def)
  qed
qed

lemma map_replace_frame:
  "sighting_id x = sid \<Longrightarrow>
     filter (\<lambda>r. sighting_id r \<noteq> sid) (map (\<lambda>r. if sighting_id r = sid then x else r) xs) =
       filter (\<lambda>r. sighting_id r \<noteq> sid) xs"
  by (induction xs) auto

lemma get_sighting_id: "get_sighting tbl sid = Some s \<Longrightarrow> sighting_id s = sid"
  by (auto simp: get_sighting_def find_Some_iff)

lemma edit_sighting_bounds:
  "bounded (Suc 0) w (snd (edit_sighting env meth sid form img w)) \<and>
   filter (\<lambda>r. sighting_id r \<noteq> sid) (table (snd (edit_sighting env meth sid form img w))) =
     filter (\<lambda>r. sighting_id r \<noteq> sid) (table w) \<and>
   length (table (snd (edit_sighting env meth sid form img w))) = length (table w)"
proof (cases "get_sighting (table w) sid")
  case None
  then show ?thesis by (simp add: edit_sighting_def)
next
  case (Some sighting)
  then have sid: "sighting_id sighting = sid" by (rule get_sighting_id)
  show ?thesis
  proof (cases meth)
    case GET
    with Some show ?thesis by (simp add: edit_sighting_def)
  next
    case POST
    show ?thesis
    proof (cases "edit_sighting_try env form img sighting w")
      case (Inl ew)
      obtain e w' where ew: "ew = (e, w')" by (cases ew)
      from edit_sighting_try_Inl [of env form img sighting w e w'] Inl ew
      have "table w' = table w" "bounded (Suc 0) w w'" by simp_all
      with Some POST Inl ew show ?thesis
        by (simp add: edit_sighting_def bounded_rollback)
    next
      case (Inr w')
      from edit_sighting_try_Inr [OF Inr] obtain r where
        t: "table w' = map (\<lambda>x. if sighting_id x = sid then r else x) (table w)"
        and r: "sighting_id r = sid" and b: "bounded (Suc 0) w w'"
        by (auto simp: sid)
      from t r have "filter (\<lambda>r. sighting_id r \<noteq> sid) (table w') =
                     filter (\<lambda>r. sighting_id r \<noteq> sid) (table w) \<and>
                     length (table w') = length (table w)"
        by (simp add: map_replace_frame)
      with Some POST Inr b show ?thesis by (simp add: edit_sighting_def)
    qed
  qed
qed

lemma delete_sighting_bounds:
  "file_writes (effects (snd (delete_sighting sid w))) = file_writes (effects w) \<and>
   file_deletes (effects (snd (delete_sighting sid w))) \<le> file_deletes (effects w) + 1 \<and>
   commits (effects (snd (delete_sighting sid w))) \<le> commits (effects w) + 1 \<and>
   filter (\<lambda>r. sighting_id r \<noteq> sid) (table (snd (delete_sighting sid w))) =
     filter (\<lambda>r. sighting_id r \<noteq> sid) (table w)"
proof (cases "get_sighting (table w) sid")
  case None
  then show ?thesis by (simp add: delete_sighting_def)
next
  case (Some sighting)
  obtain es where "effects (snd (delete_image (image_filename sighting) w)) = effects w @ es"
    "file_writes es = 0" "file_deletes es \<le> Suc 0" "commits es = 0"
    "table (snd (delete_image (image_filename sighting) w)) = table w"
    using delete_image_step [of w "image_filename sighting"] by (auto simp: step_ok_def)
  with Some show ?thesis
    by (simp add: delete_sighting_def Let_def)
qed

text \<open>
  Claim C4, as amended. A call of the sighting service issues at most one write of an image
  file, at most one removal of an image file and at most one commit; creating never removes
  a file and deleting never writes one. An update that replaces an image does both, a
  removal and a write, so a call can issue two file operations. The commit changes at most
  the one row addressed: creating appends one row or none, updating leaves the length of the
  table and every row with another key as they were, deleting leaves every row with another
  key as it was. This holds whatever the library functions return, and whether or not a file
  write or a database operation of a create or an update raises.
\<close>

theorem service_effect_bounds:
  "file_writes (effects (snd (add_sighting env meth form img w))) \<le> file_writes (effects w) + 1 \<and>
   file_deletes (effects (snd (add_sighting env meth form img w))) = file_deletes (effects w) \<and>
   commits (effects (snd (add_sighting env meth form img w))) \<le> commits (effects w) + 1 \<and>
   (table (snd (add_sighting env meth form img w)) = table w \<or>
    (\<exists>r. table (snd (add_sighting env meth form img w)) = table w @ [r])) \<and>
   file_writes (effects (snd (edit_sighting env meth sid form img w))) \<le> file_writes (effects w) + 1 \<and>
   file_deletes (effects (snd (edit_sighting env meth sid form img w))) \<le> file_deletes (effects w) + 1 \<and>
   commits (effects (snd (edit_sighting env meth sid form img w))) \<le> commits (effects w) + 1 \<and>
   filter (\<lambda>r. sighting_id r \<noteq> sid) (table (snd (edit_sighting env meth sid form img w))) =
     filter (\<lambda>r. sighting_id r \<noteq> sid) (table w) \<and>
   length (table (snd (edit_sighting env meth sid form img w))) = length (table w) \<and>
   file_writes (effects (snd (delete_sighting sid w))) = file_writes (effects w) \<and>
   file_deletes (effects (snd (delete_sighting sid w))) \<le> file_deletes (effects w) + 1 \<and>
   commits (effects (snd (delete_sighting sid w))) \<le> commits (effects w) + 1 \<and>
   filter (\<lambda>r. sighting_id r \<noteq> sid) (table (snd (delete_sighting sid w))) =
     filter (\<lambda>r. sighting_id r \<noteq> sid) (table w)"
  using add_sighting_bounds [of w env meth form img]
    edit_sighting_bounds [of w env meth sid form img]
    delete_sighting_bounds [of sid w]
  by (simp add: bounded_def)

lemmas eval_simps = sample_sighting_def sample_form_def sample_world_def sample_time_def
  sample_env_def add_sighting_def add_sighting_try_def new_sighting_def edit_sighting_def
  edit_sighting_try_def edited_sighting_def delete_sighting_def get_sighting_def
  form_timestamp_def form_required_def bind_exn_def add_upload_def edit_upload_def
  edit_remove_image_def save_image_def delete_image_def flash_msg_def truthy_def Let_def
  allowed_file_def rsplit_dot_last_def str_lower_def char_lower_def ascii_upper_def
  char_upper_def ascii_lowercase_def ascii_uppercase_def ALLOWED_EXTENSIONS_def str_nat.simps
  digit_char_def digits_def

theorem replace_image_two_file_operations_counterexample:
  "effects (snd (edit_sighting sample_env POST 5 sample_form (Some (''new.jpg'', ''B''))
                   (sample_world [sample_sighting 5 None (Some ''sighting_5_old.jpg'')]
                      [''sighting_5_old.jpg'' \<mapsto> ''A''] []))) =
     [OsRemove ''sighting_5_old.jpg'', FileSave ''sighting_5_new.jpg'', SessionCommit] \<and>
   file_writes (effects (snd (edit_sighting sample_env POST 5 sample_form (Some (''new.jpg'', ''B''))
                   (sample_world [sample_sighting 5 None (Some ''sighting_5_old.jpg'')]
                      [''sighting_5_old.jpg'' \<mapsto> ''A''] [])))) +
   file_deletes (effects (snd (edit_sighting sample_env POST 5 sample_form (Some (''new.jpg'', ''B''))
                   (sample_world [sample_sighting 5 None (Some ''sighting_5_old.jpg'')]
                      [''sighting_5_old.jpg'' \<mapsto> ''A''] [])))) = 2"
  by (simp add: eval_simps count_defs)

theorem service_effect_bounds_witness:
  "file_writes (effects (snd (edit_sighting sample_env POST 5 sample_form (Some (''new.jpg'', ''B''))
                   (sample_world [sample_sighting 5 None (Some ''sighting_5_old.jpg'')]
                      [''sighting_5_old.jpg'' \<mapsto> ''A''] [])))) \<le> 1 \<and>
   file_deletes (effects (snd (edit_sighting sample_env POST 5 sample_form (Some (''new.jpg'', ''B''))
                   (sample_world [sample_sighting 5 None (Some ''sighting_5_old.jpg'')]
                      [''sighting_5_old.jpg'' \<mapsto> ''A''] [])))) \<le> 1 \<and>
   commits (effects (snd (edit_sighting sample_env POST 5 sample_form (Some (''new.jpg'', ''B''))
                   (sample_world [sample_sighting 5 None (Some ''sighting_5_old.jpg'')]
                      [''sighting_5_old.jpg'' \<mapsto> ''A''] [])))) \<le> 1"
  using service_effect_bounds
    [of sample_env POST sample_form "Some (''new.jpg'', ''B'')"
        "sample_world [sample_sighting 5 None (Some ''sighting_5_old.jpg'')]
           [''sighting_5_old.jpg'' \<mapsto> ''A''] []" 5]
  by (simp add: sample_world_def count_defs)

lemma add_sighting_Redirect:
  "add_sighting env POST form img w = (Redirect ''index'', w') \<longleftrightarrow>
     add_sighting_try env form img w = Inr w'"
  by (auto simp: add_sighting_def split: sum.splits prod.splits)

lemma edit_sighting_Redirect:
  "get_sighting (table w) sid = Some old \<Longrightarrow>
   edit_sighting env POST sid form img w = (Redirect ''index'', w') \<longleftrightarrow>
     edit_sighting_try env form img old w = Inr w'"
  by (auto simp: edit_sighting_def split: sum.splits prod.splits)

lemma save_image_writable:
  "unwritable w = [] \<Longrightarrow> \<exists>x. save_image env f i w = Inr x"
  by (simp add: save_image_def Let_def)

lemma add_upload_writable:
  assumes "unwritable (snd sw) = []"
  shows "\<exists>x. add_upload env img sw = Inr x"
proof (cases img)
  case None
  then show ?thesis by (simp add: add_upload_def)
next
  case (Some f)
  obtain x where "save_image env f (sighting_id (fst sw)) (snd sw) = Inr x"
    using save_image_writable [OF assms] by blast
  with Some show ?thesis
    by (cases x) (auto simp: add_upload_def split: option.splits)
qed

lemma edit_upload_writable:
  assumes "unwritable (snd sw) = []"
  shows "\<exists>x. edit_upload env img sw = Inr x"
proof (cases img)
  case None
  then show ?thesis by (simp add: edit_upload_def)
next
  case (Some f)
  let ?w2 = "if truthy (image_filename (fst sw))
             then snd (delete_image (image_filename (fst sw)) (snd sw)) else snd sw"
  have "unwritable ?w2 = []"
    using assms step_ok_counts(7) [OF delete_image_step [of "snd sw" "image_filename (fst sw)"]]
    by simp
  then obtain x where "save_image env f (sighting_id (fst sw)) ?w2 = Inr x"
    using save_image_writable by blast
  with Some show ?thesis
    by (cases x) (auto simp: edit_upload_def Let_def split: option.splits)
qed

lemma add_sighting_succeeds:
  assumes "new_sighting env form = Inr r0" and "unwritable w = []"
    and "\<forall>r. \<not> db_refuses w r"
  shows "\<exists>w'. add_sighting env POST form img w = (Redirect ''index'', w')"
proof -
  let ?w1 = "w\<lparr>effects := effects w @ [SessionAdd, SessionFlush]\<rparr>"
  obtain x where "add_upload env img (r0, ?w1) = Inr x"
    using add_upload_writable [of "(r0, ?w1)" env img] assms(2) by auto
  with assms(1,3) have "\<exists>w'. add_sighting_try env form img w = Inr w'"
    by (simp add: add_sighting_try_def Let_def)
  then show ?thesis by (simp add: add_sighting_Redirect)
qed

lemma edit_sighting_succeeds:
  assumes "get_sighting (table w) sid = Some old"
    and "edited_sighting env form old = Inr s1" and "unwritable w = []"
    and "\<forall>r. \<not> db_refuses w r"
  shows "\<exists>w'. edit_sighting env POST sid form img w = (Redirect ''index'', w')"
proof -
  have "unwritable (snd (edit_remove_image form (s1, w))) = []"
    using assms(3) step_ok_counts(7) [OF edit_remove_image_step [of "(s1, w)" form]] by simp
  then obtain x where "edit_upload env img (edit_remove_image form (s1, w)) = Inr x"
    using edit_upload_writable by blast
  with assms(2,4) have "\<exists>w'. edit_sighting_try env form img old w = Inr w'"
    by (simp add: edit_sighting_try_def Let_def)
  then show ?thesis by (simp add: edit_sighting_Redirect [OF assms(1)])
qed


lemma form_timestamp_ok:
  "form ''sighting_time'' = None \<or> form ''sighting_time'' = Some [] \<or>
   (\<exists>s t. form ''sighting_time'' = Some s \<and> parse_time env s = Inr t)
   \<Longrightarrow> \<exists>ts. form_timestamp env form dflt conv = Inr ts"
  by (auto simp: form_timestamp_def)



lemma sample_form_fields:
  "sample_form ''state'' = Some ''ny''" "sample_form ''license_plate'' = Some ''xyz9876''"
  "sample_form ''car_make'' = Some ''Toyota''" "sample_form ''car_model'' = Some ''Camry''"
  "sample_form ''color'' = Some ''Silver''" "sample_form ''sighting_time'' = None"
  by (simp_all add: sample_form_def)

lemma sample_env_fields:
  "utcnow sample_env = sample_time" "parse_time sample_env = strptime_minutes"
  "upper sample_env = ascii_upper" "flush_id sample_env = 6"
  by (simp_all add: sample_env_def)

lemma sample_world_fields:
  "table (sample_world tbl up locked) = tbl" "uploads (sample_world tbl up locked) = up"
  "undeletable (sample_world tbl up locked) = locked" "unwritable (sample_world tbl up locked) = []"
  "db_refuses (sample_world tbl up locked) r = False" "flashes (sample_world tbl up locked) = []"
  "effects (sample_world tbl up locked) = []"
  by (simp_all add: sample_world_def)




lemma char_upper_nth: "k < 26 \<Longrightarrow> char_upper (ascii_lowercase ! k) = ascii_uppercase ! k"
proof -
  assume k: "k < 26"
  have "length ascii_lowercase = length ascii_uppercase" "distinct ascii_lowercase"
    "length ascii_uppercase = 26"
    by (simp_all add: ascii_lowercase_def ascii_uppercase_def)
  with k have "map_of (zip ascii_lowercase ascii_uppercase) (ascii_lowercase ! k) =
                 Some (ascii_uppercase ! k)"
    by (simp add: map_of_zip_nth)
  then show ?thesis by (simp add: char_upper_def)
qed

lemma char_upper_other: "c \<notin> set ascii_lowercase \<Longrightarrow> char_upper c = c"
proof -
  assume c: "c \<notin> set ascii_lowercase"
  have "length ascii_lowercase = length ascii_uppercase"
    by (simp add: ascii_lowercase_def ascii_uppercase_def)
  then have "map_of (zip ascii_lowercase ascii_uppercase) c = None"
    using c by (simp add: map_of_zip_is_None)
  then show ?thesis by (simp add: char_upper_def)
qed

lemma ascii_upper_cased: "upper_cased s (ascii_upper s)"
  by (simp add: upper_cased_def ascii_upper_def char_upper_nth char_upper_other)

lemma get_sighting_replaced:
  "get_sighting tbl sid = Some old \<Longrightarrow> sighting_id x = sid \<Longrightarrow>
     get_sighting (map (\<lambda>r. if sighting_id r = sid then x else r) tbl) sid = Some x"
  unfolding get_sighting_def by (induction tbl) (auto split: if_splits)


text \<open>
  Claim C7. For a form with the five required fields, every create request that succeeds
  appends a row whose \<open>state\<close> and \<open>license_plate\<close> are \<open>str.upper\<close> of the values of
  the form, and every update request on an existing row that succeeds leaves under that key
  a row with these two fields so. Such a request does succeed when the date-time string is
  missing, empty or accepted by \<open>strptime\<close> and no file write and no database operation
  raises. On ASCII input, where \<open>str.upper\<close> is \<open>ascii_upper\<close>, the stored values are
  the values of the form with every letter \<open>a\<close> to \<open>z\<close> replaced by its capital and
  every other character kept.
\<close>

theorem uppercase_normalized:
  assumes "form ''state'' = Some st" and "form ''license_plate'' = Some lp"
    and "form ''car_make'' = Some mk" and "form ''car_model'' = Some md"
    and "form ''color'' = Some cl"
  shows "(\<forall>w'. add_sighting env POST form img w = (Redirect ''index'', w') \<longrightarrow>
            (\<exists>r. table w' = table w @ [r] \<and> state r = upper env st \<and>
                 license_plate r = upper env lp)) \<and>
         (\<forall>old w'. get_sighting (table w) sid = Some old \<and>
                   edit_sighting env POST sid form img w = (Redirect ''index'', w') \<longrightarrow>
            (\<exists>r. get_sighting (table w') sid = Some r \<and> state r = upper env st \<and>
                 license_plate r = upper env lp)) \<and>
         ((form ''sighting_time'' = None \<or> form ''sighting_time'' = Some [] \<or>
           (\<exists>s t. form ''sighting_time'' = Some s \<and> parse_time env s = Inr t)) \<and>
          unwritable w = [] \<and> (\<forall>r. \<not> db_refuses w r) \<longrightarrow>
            (\<exists>w'. add_sighting env POST form img w = (Redirect ''index'', w')) \<and>
            (\<forall>old. get_sighting (table w) sid = Some old \<longrightarrow>
               (\<exists>w'. edit_sighting env POST sid form img w = (Redirect ''index'', w')))) \<and>
         ((\<forall>x. is_ascii x \<longrightarrow> upper env x = ascii_upper x) \<and> is_ascii st \<and> is_ascii lp \<longrightarrow>
            upper_cased st (upper env st) \<and> upper_cased lp (upper env lp))"
proof (intro conjI allI impI)
  fix w'
  assume "add_sighting env POST form img w = (Redirect ''index'', w')"
  then have "add_sighting_try env form img w = Inr w'" by (simp add: add_sighting_Redirect)
  from add_sighting_try_Inr(1) [OF this] obtain r0 r where
    r: "new_sighting env form = Inr r0" "table w' = table w @ [r]" "state r = state r0"
       "license_plate r = license_plate r0"
    by blast
  from r(1) assms have "state r0 = upper env st" "license_plate r0 = upper env lp"
    by (auto simp: new_sighting_Inr)
  with r show "\<exists>r. table w' = table w @ [r] \<and> state r = upper env st \<and>
                 license_plate r = upper env lp"
    by auto
next
  fix old w'
  assume a: "get_sighting (table w) sid = Some old \<and>
             edit_sighting env POST sid form img w = (Redirect ''index'', w')"
  then have old: "get_sighting (table w) sid = Some old" by simp
  then have sid: "sighting_id old = sid" by (rule get_sighting_id)
  from a have "edit_sighting_try env form img old w = Inr w'"
    using edit_sighting_Redirect [OF old] by simp
  from edit_sighting_try_Inr(1) [OF this] obtain s1 r where
    r: "edited_sighting env form old = Inr s1"
       "table w' = map (\<lambda>x. if sighting_id x = sid then r else x) (table w)"
       "state r = state s1" "license_plate r = license_plate s1" "sighting_id r = sid"
    by (auto simp: sid)
  from r(1) assms have "state s1 = upper env st" "license_plate s1 = upper env lp"
    by (auto simp: edited_sighting_Inr)
  moreover have "get_sighting (table w') sid = Some r"
    using get_sighting_replaced [OF old r(5)] by (simp add: r(2))
  ultimately show "\<exists>r. get_sighting (table w') sid = Some r \<and> state r = upper env st \<and>
                 license_plate r = upper env lp"
    using r(3,4) by auto
next
  assume ok: "(form ''sighting_time'' = None \<or> form ''sighting_time'' = Some [] \<or>
           (\<exists>s t. form ''sighting_time'' = Some s \<and> parse_time env s = Inr t)) \<and>
          unwritable w = [] \<and> (\<forall>r. \<not> db_refuses w r)"
  then obtain ts where "form_timestamp env form (utcnow env) (\<lambda>t. t) = Inr ts"
    using form_timestamp_ok [of form env "utcnow env" "\<lambda>t. t"] by blast
  then have "\<exists>r0. new_sighting env form = Inr r0"
    using assms by (simp add: new_sighting_Inr)
  then show "\<exists>w'. add_sighting env POST form img w = (Redirect ''index'', w')"
    using add_sighting_succeeds ok by blast
next
  fix old
  assume ok: "(form ''sighting_time'' = None \<or> form ''sighting_time'' = Some [] \<or>
           (\<exists>s t. form ''sighting_time'' = Some s \<and> parse_time env s = Inr t)) \<and>
          unwritable w = [] \<and> (\<forall>r. \<not> db_refuses w r)"
    and old: "get_sighting (table w) sid = Some old"
  from ok obtain ts where "form_timestamp env form (timestamp old) Some = Inr ts"
    using form_timestamp_ok [of form env "timestamp old" Some] by blast
  then have "\<exists>s1. edited_sighting env form old = Inr s1"
    using assms by (simp add: edited_sighting_Inr)
  then show "\<exists>w'. edit_sighting env POST sid form img w = (Redirect ''index'', w')"
    using edit_sighting_succeeds [OF old] ok by blast
next
  assume a: "(\<forall>x. is_ascii x \<longrightarrow> upper env x = ascii_upper x) \<and> is_ascii st \<and> is_ascii lp"
  then have u: "upper env st = ascii_upper st" "upper env lp = ascii_upper lp" by simp_all
  show "upper_cased st (upper env st)" "upper_cased lp (upper env lp)"
    by (simp_all add: u ascii_upper_cased)
qed

lemmas upper_simps = ascii_upper_def char_upper_def ascii_lowercase_def ascii_uppercase_def

theorem uppercase_normalized_witness:
  "sample_form ''state'' = Some ''ny'' \<and> sample_form ''license_plate'' = Some ''xyz9876'' \<and>
   upper sample_env ''ny'' = ''NY'' \<and> upper sample_env ''xyz9876'' = ''XYZ9876'' \<and>
   map state (table (snd (add_sighting sample_env POST sample_form None
                            (sample_world [] Map.empty [])))) = [''NY''] \<and>
   map license_plate (table (snd (add_sighting sample_env POST sample_form None
                            (sample_world [] Map.empty [])))) = [''XYZ9876''] \<and>
   map_option state (get_sighting (table (snd (edit_sighting sample_env POST 5 sample_form None
       (sample_world [sample_sighting 5 None None] Map.empty [])))) 5) = Some ''NY'' \<and>
   map_option license_plate (get_sighting (table (snd (edit_sighting sample_env POST 5 sample_form
       None (sample_world [sample_sighting 5 None None] Map.empty [])))) 5) = Some ''XYZ9876'' \<and>
   upper_cased ''ny'' (upper sample_env ''ny'')"
proof -
  let ?w0 = "sample_world [] Map.empty []"
  let ?w5 = "sample_world [sample_sighting 5 None None] Map.empty []"
  have u: "upper sample_env ''ny'' = ''NY''" "upper sample_env ''xyz9876'' = ''XYZ9876''"
    by (simp_all add: sample_env_fields upper_simps)
  have g: "get_sighting (table ?w5) 5 = Some (sample_sighting 5 None None)"
    by (simp add: get_sighting_def sample_world_fields sample_sighting_def)
  have asc: "(\<forall>x. is_ascii x \<longrightarrow> upper sample_env x = ascii_upper x) \<and>
             is_ascii ''ny'' \<and> is_ascii ''xyz9876''"
    by (simp add: sample_env_fields is_ascii_def)
  note T0 = uppercase_normalized [OF sample_form_fields(1-5), of sample_env None ?w0 5]
  note T5 = uppercase_normalized [OF sample_form_fields(1-5), of sample_env None ?w5 5]
  from T0 obtain w' where a: "add_sighting sample_env POST sample_form None ?w0 =
                                (Redirect ''index'', w')"
    by (auto simp: sample_form_fields sample_world_fields)
  with T0 obtain r where r: "table w' = table ?w0 @ [r]" "state r = upper sample_env ''ny''"
    "license_plate r = upper sample_env ''xyz9876''"
    by blast
  from T5 g obtain w'' where e: "edit_sighting sample_env POST 5 sample_form None ?w5 =
                                  (Redirect ''index'', w'')"
    by (auto simp: sample_form_fields sample_world_fields)
  with T5 g obtain r' where r': "get_sighting (table w'') 5 = Some r'"
    "state r' = upper sample_env ''ny''" "license_plate r' = upper sample_env ''xyz9876''"
    by blast
  from T0 asc have "upper_cased ''ny'' (upper sample_env ''ny'')" by blast
  with a r e r' show ?thesis
    by (simp add: u sample_form_fields sample_world_fields)
qed




section \<open>Properties of the date-range filter\<close>

lemma then_p_set:
  "x \<in> set (then_p p f s) \<longleftrightarrow> (\<exists>a r. (a, r) \<in> set (p s) \<and> x \<in> set (f a r))"
  by (auto simp: then_p_def)

lemma finish_Inr: "finish ms = Inr d \<Longrightarrow> valid_datetime d \<and> (\<exists>r. (d, r) \<in> set ms)"
  by (cases ms) (auto simp: finish_def split: if_splits)

lemma strptime_date_shape:
  assumes "strptime_date s = Inr d"
  shows "valid_datetime d \<and> midnight d"
proof -
  from assms obtain r where v: "valid_datetime d" and
    m: "(d, r) \<in> set (then_p dir_Y (\<lambda>y. then_p (lit ''-'') (\<lambda>_. then_p dir_m (\<lambda>m.
        then_p (lit ''-'') (\<lambda>_. then_p dir_d (\<lambda>d.
        return_p (mk_datetime y m d 0 0 0)))))) s)"
    unfolding strptime_date_def by (blast dest: finish_Inr)
  from m have "midnight d"
    by (auto simp: then_p_set return_p_def mk_datetime_def midnight_def)
  with v show ?thesis by simp
qed

lemma strptime_date_empty: "strptime_date [] = Inl ValueError"
  by (simp add: strptime_date_def then_p_def dir_Y_def finish_def)

lemma dt_le_midnight: "midnight d \<Longrightarrow> dt_le d t \<longleftrightarrow> day_le d t"
  by (auto simp: dt_le_def dt_less_def dt_fields_def day_le_def date_fields_def midnight_def)

lemma days_in_month_12: "days_in_month y 12 = 31"
  by (simp add: days_in_month_def)

lemma lex_same_day:
  "lex_less [a, b, c, e, f, g, h] [y, m, Suc d, 0, 0, 0, 0] \<longleftrightarrow> \<not> lex_less [y, m, d] [a, b, c]"
  by auto

lemma lex_next_month:
  "Suc 0 \<le> c \<Longrightarrow> (a = y \<and> b = m \<longrightarrow> c \<le> d) \<Longrightarrow>
   lex_less [a, b, c, e, f, g, h] [y, Suc m, Suc 0, 0, 0, 0, 0] \<longleftrightarrow> \<not> lex_less [y, m, d] [a, b, c]"
  by auto

lemma lex_next_year:
  "Suc 0 \<le> c \<Longrightarrow> Suc 0 \<le> b \<Longrightarrow> b \<le> 12 \<Longrightarrow> (a = y \<and> b = 12 \<longrightarrow> c \<le> d) \<Longrightarrow>
   lex_less [a, b, c, e, f, g, h] [Suc y, Suc 0, Suc 0, 0, 0, 0, 0] \<longleftrightarrow> \<not> lex_less [y, 12, d] [a, b, c]"
  by auto

lemma dt_less_next_day:
  assumes "add_one_day d = Inr d'" and "midnight d" and "valid_datetime d"
    and "valid_datetime t"
  shows "dt_less t d' \<longleftrightarrow> day_le t d"
proof (cases "day d < days_in_month (year d) (month d)")
  case True
  with assms(1) have "d' = d\<lparr>day := Suc (day d)\<rparr>" by (simp add: add_one_day_def)
  with assms(2) show ?thesis
    by (simp add: dt_less_def dt_fields_def day_le_def date_fields_def midnight_def
          lex_same_day del: lex_less.simps)
next
  case False
  with assms(3) have last_day: "day d = days_in_month (year d) (month d)"
    by (simp add: valid_datetime_def)
  have t: "1 \<le> day t" "1 \<le> month t" "month t \<le> 12"
    "day t \<le> days_in_month (year t) (month t)"
    using assms(4) by (simp_all add: valid_datetime_def)
  show ?thesis
  proof (cases "month d < 12")
    case True
    with assms(1) False have "d' = d\<lparr>month := Suc (month d), day := 1\<rparr>"
      by (simp add: add_one_day_def)
    moreover have "year t = year d \<and> month t = month d \<longrightarrow> day t \<le> day d"
      using t(4) last_day by auto
    ultimately show ?thesis
      using assms(2) t(1)
      by (simp add: dt_less_def dt_fields_def day_le_def date_fields_def midnight_def
            lex_next_month del: lex_less.simps)
  next
    case december: False
    with assms(3) have m: "month d = 12" by (simp add: valid_datetime_def)
    with assms(1) False december have "d' = d\<lparr>year := Suc (year d), month := 1, day := 1\<rparr>"
      by (simp add: add_one_day_def split: if_splits)
    moreover have "year t = year d \<and> month t = 12 \<longrightarrow> day t \<le> day d"
      using t(4) last_day m by auto
    ultimately show ?thesis
      using assms(2) t(1-3) m
      by (simp add: dt_less_def dt_fields_def day_le_def date_fields_def midnight_def
            lex_next_year del: lex_less.simps)
  qed
qed

text \<open>
  Claim C5. With a start date and an end date that parse, and rows whose timestamps are
  date-times that exist, the listing returns exactly the rows whose timestamp is not null
  and falls on a calendar day from the start day to the end day, both days included in
  full; and that is the filter \<open>start \<le> timestamp < end + 1 day\<close> that the code applies.
  The evaluation below is the example of the specification: with both dates 2025-10-05, a row
  of 2025-10-05 23:59:00 is returned and a row of 2025-10-06 00:00:01 is not.
\<close>

theorem date_range_filter_inclusive:
  assumes "args ''start_date'' = Some sd" and "args ''end_date'' = Some ed"
    and "strptime_date sd = Inr d1" and "strptime_date ed = Inr d2"
    and "add_one_day d2 = Inr d3"
    and "\<forall>s \<in> set tbl. \<forall>t. timestamp s = Some t \<longrightarrow> valid_datetime t"
  shows "index_query args tbl = Inr (filter (in_day_range d1 d2) tbl, []) \<and>
         filter (in_day_range d1 d2) tbl =
           filter (\<lambda>s. case timestamp s of None \<Rightarrow> False
                                         | Some t \<Rightarrow> dt_le d1 t \<and> dt_less t d3) tbl"
proof -
  have sd: "sd \<noteq> []" and ed: "ed \<noteq> []"
    using assms(3,4) strptime_date_empty by auto
  have s1: "midnight d1" and s2: "midnight d2" "valid_datetime d2"
    using strptime_date_shape [OF assms(3)] strptime_date_shape [OF assms(4)] by simp_all
  have eq: "in_day_range d1 d2 s \<longleftrightarrow>
              (case timestamp s of None \<Rightarrow> False | Some t \<Rightarrow> dt_le d1 t \<and> dt_less t d3)"
    if "s \<in> set tbl" for s
  proof (cases "timestamp s")
    case None
    then show ?thesis by (simp add: in_day_range_def)
  next
    case (Some t)
    with that assms(6) have "valid_datetime t" by blast
    then have "dt_less t d3 \<longleftrightarrow> day_le t d2"
      using dt_less_next_day [OF assms(5) s2] by simp
    with Some s1 show ?thesis by (simp add: in_day_range_def dt_le_midnight)
  qed
  then have f: "filter (in_day_range d1 d2) tbl =
           filter (\<lambda>s. case timestamp s of None \<Rightarrow> False
                                         | Some t \<Rightarrow> dt_le d1 t \<and> dt_less t d3) tbl"
    by (simp cong: filter_cong)
  have "index_query args tbl =
          Inr (filter (\<lambda>s. case timestamp s of None \<Rightarrow> False
                                         | Some t \<Rightarrow> dt_le d1 t \<and> dt_less t d3) tbl, [])"
    using assms(1-5) sd ed
    by (auto simp: index_query_def args_get_def filter_start_def filter_end_def
          intro!: filter_cong split: option.splits)
  with f show ?thesis by simp
qed

theorem date_range_filter_inclusive_witness:
  "strptime_date ''2025-10-05'' = Inr (mk_datetime 2025 10 5 0 0 0) \<and>
   add_one_day (mk_datetime 2025 10 5 0 0 0) = Inr (mk_datetime 2025 10 6 0 0 0) \<and>
   index_query [''start_date'' \<mapsto> ''2025-10-05'', ''end_date'' \<mapsto> ''2025-10-05'']
     [sample_sighting 1 (Some \<lparr>year = 2025, month = 10, day = 5, hour = 23, minute = 59,
                                second = 0, microsecond = 0\<rparr>) None,
      sample_sighting 2 (Some \<lparr>year = 2025, month = 10, day = 6, hour = 0, minute = 0,
                                second = 1, microsecond = 0\<rparr>) None] =
     Inr ([sample_sighting 1 (Some \<lparr>year = 2025, month = 10, day = 5, hour = 23, minute = 59,
                                     second = 0, microsecond = 0\<rparr>) None], [])"
proof -
  let ?args = "[''start_date'' \<mapsto> ''2025-10-05'', ''end_date'' \<mapsto> ''2025-10-05'']"
  let ?t1 = "\<lparr>year = 2025, month = 10, day = 5, hour = 23, minute = 59,
              second = 0, microsecond = 0\<rparr>"
  let ?t2 = "\<lparr>year = 2025, month = 10, day = 6, hour = 0, minute = 0,
              second = 1, microsecond = 0\<rparr>"
  let ?tbl = "[sample_sighting 1 (Some ?t1) None, sample_sighting 2 (Some ?t2) None]"
  have a: "?args ''start_date'' = Some ''2025-10-05''" "?args ''end_date'' = Some ''2025-10-05''"
    by simp_all
  have p: "strptime_date ''2025-10-05'' = Inr (mk_datetime 2025 10 5 0 0 0)"
    by (simp add: parse_simps)
  have n: "add_one_day (mk_datetime 2025 10 5 0 0 0) = Inr (mk_datetime 2025 10 6 0 0 0)"
    by (simp add: add_one_day_def mk_datetime_def days_in_month_def)
  have v: "\<forall>s \<in> set ?tbl. \<forall>t. timestamp s = Some t \<longrightarrow> valid_datetime t"
    by (simp add: sample_sighting_def valid_datetime_def days_in_month_def)
  have f: "filter (in_day_range (mk_datetime 2025 10 5 0 0 0) (mk_datetime 2025 10 5 0 0 0)) ?tbl =
             [sample_sighting 1 (Some ?t1) None]"
    by (simp add: in_day_range_def day_le_def date_fields_def sample_sighting_def
          mk_datetime_def)
  show ?thesis
    using date_range_filter_inclusive [OF a p p n v, THEN conjunct1] p n
    by (simp only: f simp_thms)
qed

end
